theory Spec2Isabelle
  imports Main
begin

section \<open>The session client controller of static/js/app.js\<close>

text \<open>
  The class \<open>DocumentAIProcessor\<close> holds two fields, \<open>currentSessionId\<close> and
  \<open>statusCheckInterval\<close>, and reads and writes elements of the page. Its methods are
  \<open>async\<close>: a method runs until its first \<open>await\<close>, the browser then runs other
  handlers, and the rest of the method runs when the awaited \<open>fetch\<close> settles.

  The embedding is a state machine. The state is a record of the two fields, of the page
  elements the methods touch, and of what the browser holds for the page: the interval
  timers that are registered, the requests sent, and the requests in flight, each with the
  continuation that waits for it. Every method is a function from state to state; a method
  with an \<open>await\<close> is two functions, the part before the \<open>await\<close> (named as the
  method) and the part after it (suffix \<open>_k\<close>), which takes the settled \<open>fetch\<close>.
  An event (a click, a timer tick, a response) is one step of the machine.

  A method that awaits \<open>fetch\<close> and then \<open>response.json()\<close> touches no field and no
  element between the two, so the two suspensions are one step: the settled request
  carries the outcome of both. Not modelled: the markup of the rendered elements (the
  state keeps the data each element is rendered from), the icons and sizes in the list of
  selected files, the removal of a toast after three seconds, and the listener of the
  window's \<open>error\<close> event, which only runs on an exception no method throws here.
\<close>

subsection \<open>Values exchanged with the server\<close>

text \<open>A \<open>File\<close> of the file input: its name and its size in bytes.\<close>

record js_file =
  file_name :: string
  file_size :: nat

text \<open>The body of \<open>GET /status/{session_id}\<close>: \<open>{status, files: [{filename, file_type, status}]}\<close>.\<close>

record file_status =
  fs_filename :: string
  fs_file_type :: string
  fs_status :: string

record status_body =
  sb_status :: string
  sb_files :: "file_status list"

text \<open>The body of \<open>GET /quiz/{session_id}\<close>: questions, each with its options in the order
  of \<open>Object.entries\<close>.\<close>

record question =
  q_question :: string
  q_options :: "(string \<times> string) list"
  q_correct_answer :: string
  q_explanation :: string

text \<open>An entry of \<open>GET /saved-sessions\<close>.\<close>

record saved_session =
  ss_session_id :: string
  ss_session_name :: string
  ss_updated_at :: string

text \<open>
  A settled \<open>fetch\<close>. The promise is rejected with an error (its message), or it resolves
  to a response with its \<open>ok\<close> flag, its \<open>statusText\<close>, and the outcome of
  \<open>response.json()\<close>: rejected with an error (\<open>Inl\<close> its message) or the decoded body.
  Bodies are typed as the server's contract gives them.
\<close>

datatype 'a fetched =
    Rejected string
  | Response bool string "string + 'a"

text \<open>A request as passed to \<open>fetch\<close>: method, path and the fields of the form data.\<close>

datatype form_value = Text string | FileValue js_file

record request =
  req_method :: string
  req_url :: string
  req_form :: "(string \<times> form_value) list"

text \<open>
  The continuation that waits for a request in flight: the rest of the method that issued
  it. \<open>loadSession\<close> awaits \<open>updateProcessingStatus\<close> and then issues a request of
  its own; its two continuations carry its argument \<open>sessionId\<close>.
\<close>

datatype continuation =
    K_uploadFiles
  | K_updateProcessingStatus
  | K_loadSession_awaited string
  | K_loadSession_final string
  | K_generateSummary
  | K_generateQuiz
  | K_saveSession
  | K_showHistory

subsection \<open>The state\<close>

text \<open>A row of the element \<open>processingStatus\<close>, as \<open>displayProcessingStatus\<close> renders it:
  the file name, the file type in upper case (as code units), the class of the badge and
  its text.\<close>

record status_row =
  row_filename :: string
  row_file_type :: "nat list"
  row_badge_class :: string
  row_badge_text :: string

text \<open>
  The fields of the controller, then the page: for each element the methods touch, whether
  its class list holds \<open>hidden\<close>, and its content or value. \<open>toasts\<close> and
  \<open>console\<close> are the calls of \<open>showToast\<close> (message and type) and of
  \<open>console.error\<close> (label and message of the error), in order. \<open>active_timers\<close> are the
  identifiers \<open>setInterval\<close> has returned and \<open>clearInterval\<close> has not been given;
  \<open>cleared_timers\<close> are the calls of \<open>clearInterval\<close>; \<open>next_timer\<close> is the
  identifier the next \<open>setInterval\<close> returns. \<open>requests\<close> are the calls of
  \<open>fetch\<close>; \<open>pending\<close> are those not yet settled.
\<close>

record app =
  currentSessionId :: "string option"
  statusCheckInterval :: "nat option"
  uploadSection_hidden :: bool
  processingSection_hidden :: bool
  resultsSection_hidden :: bool
  historyModal_hidden :: bool
  loadingOverlay_hidden :: bool
  fileList_hidden :: bool
  summaryResult_hidden :: bool
  quizResult_hidden :: bool
  uploadBtn_disabled :: bool
  fileInput_files :: "js_file list"
  fileList_items :: "js_file list"
  processingStatus :: "status_row list"
  summaryContent :: string
  quizContent :: "question list"
  historyList :: "saved_session list"
  sessionName_value :: string
  summaryType_value :: string
  questionCount_value :: string
  toasts :: "(string \<times> string) list"
  console :: "(string \<times> string) list"
  active_timers :: "nat list"
  cleared_timers :: "nat list"
  next_timer :: nat
  requests :: "request list"
  pending :: "(request \<times> continuation) list"

text \<open>JavaScript truthiness of the two fields: \<open>null\<close> and the empty string are falsy, as
  is the number 0.\<close>

definition falsy :: "string option \<Rightarrow> bool" where
  "falsy v = (case v of None \<Rightarrow> True | Some x \<Rightarrow> x = [])"

definition session_text :: "string option \<Rightarrow> string" where
  "session_text v = (case v of None \<Rightarrow> ''null'' | Some x \<Rightarrow> x)"

subsection \<open>Browser primitives\<close>

definition fetch :: "request \<Rightarrow> continuation \<Rightarrow> app \<Rightarrow> app" where
  "fetch r k s = s\<lparr>requests := requests s @ [r], pending := pending s @ [(r, k)]\<rparr>"

definition GET :: "string \<Rightarrow> request" where
  "GET u = \<lparr>req_method = ''GET'', req_url = u, req_form = []\<rparr>"

definition POST :: "string \<Rightarrow> (string \<times> form_value) list \<Rightarrow> request" where
  "POST u f = \<lparr>req_method = ''POST'', req_url = u, req_form = f\<rparr>"

text \<open>What the \<open>try\<close> block sees of a settled \<open>fetch\<close>: the message of the error thrown
  (by \<open>fetch\<close>, by the \<open>!response.ok\<close> check, or by \<open>response.json()\<close>), or the body.\<close>

definition settle :: "(string \<Rightarrow> string) \<Rightarrow> 'a fetched \<Rightarrow> string + 'a" where
  "settle not_ok r =
     (case r of
        Rejected m \<Rightarrow> Inl m
      | Response ok statusText json \<Rightarrow> if \<not> ok then Inl (not_ok statusText) else json)"

subsection \<open>Methods without a suspension\<close>

definition showToast :: "string \<Rightarrow> string \<Rightarrow> app \<Rightarrow> app" where
  "showToast message type s = s\<lparr>toasts := toasts s @ [(message, type)]\<rparr>"

definition console_error :: "string \<Rightarrow> string \<Rightarrow> app \<Rightarrow> app" where
  "console_error label message s = s\<lparr>console := console s @ [(label, message)]\<rparr>"

definition showLoadingOverlay :: "app \<Rightarrow> app" where
  "showLoadingOverlay s = s\<lparr>loadingOverlay_hidden := False\<rparr>"

definition hideLoadingOverlay :: "app \<Rightarrow> app" where
  "hideLoadingOverlay s = s\<lparr>loadingOverlay_hidden := True\<rparr>"

definition hideHistory :: "app \<Rightarrow> app" where
  "hideHistory s = s\<lparr>historyModal_hidden := True\<rparr>"

definition handleFileSelection :: "js_file list \<Rightarrow> app \<Rightarrow> app" where
  "handleFileSelection files s =
     (if length files = 0 then s
      else s\<lparr>fileList_items := files, fileList_hidden := False, uploadBtn_disabled := False\<rparr>)"

definition getStatusClass :: "string \<Rightarrow> string" where
  "getStatusClass status =
     (if status = ''pending'' then ''pending''
      else if status = ''processing'' then ''processing''
      else if status = ''completed'' then ''completed''
      else if status = ''failed'' then ''failed''
      else ''pending'')"

text \<open>
  \<open>String.prototype.toUpperCase\<close> on strings of code units below 256. The result is
  given as its list of code units, because it can leave that range and can be longer than
  the argument: the letters a to z and the letters 224 to 254 other than the division sign
  247 move down by 32, the micro sign 181 becomes the Greek capital mu 924, the sharp s 223
  becomes the two letters S S, and 255 becomes 376; every other code unit is kept.
\<close>

definition toUpperCase :: "string \<Rightarrow> nat list" where
  "toUpperCase x =
     concat (map (\<lambda>c. let u = (of_char c :: nat)
                       in if 97 \<le> u \<and> u \<le> 122 then [u - 32]
                          else if u = 181 then [924]
                          else if u = 223 then [83, 83]
                          else if 224 \<le> u \<and> u \<le> 254 \<and> u \<noteq> 247 then [u - 32]
                          else if u = 255 then [376]
                          else [u]) x)"

text \<open>The element \<open>fileStatus\<close> built for one file by the callback of \<open>forEach\<close>.\<close>

definition fileStatus :: "file_status \<Rightarrow> status_row" where
  "fileStatus f =
     \<lparr>row_filename = fs_filename f,
      row_file_type = toUpperCase (fs_file_type f),
      row_badge_class = getStatusClass (fs_status f),
      row_badge_text = fs_status f\<rparr>"

definition displayProcessingStatus :: "status_body \<Rightarrow> app \<Rightarrow> app" where
  "displayProcessingStatus status s = s\<lparr>processingStatus := map fileStatus (sb_files status)\<rparr>"

definition startStatusChecking :: "app \<Rightarrow> app" where
  "startStatusChecking s =
     s\<lparr>statusCheckInterval := Some (next_timer s),
       active_timers := active_timers s @ [next_timer s],
       next_timer := next_timer s + 1\<rparr>"

definition stopStatusChecking :: "app \<Rightarrow> app" where
  "stopStatusChecking s =
     (case statusCheckInterval s of
        None \<Rightarrow> s
      | Some t \<Rightarrow>
          if t = 0 then s
          else s\<lparr>active_timers := removeAll t (active_timers s),
                 cleared_timers := cleared_timers s @ [t],
                 statusCheckInterval := None\<rparr>)"

definition showResultsSection :: "app \<Rightarrow> app" where
  "showResultsSection s = s\<lparr>processingSection_hidden := True, resultsSection_hidden := False\<rparr>"

definition displaySummary :: "string \<Rightarrow> app \<Rightarrow> app" where
  "displaySummary content s = s\<lparr>summaryContent := content, summaryResult_hidden := False\<rparr>"

definition displayQuiz :: "question list \<Rightarrow> app \<Rightarrow> app" where
  "displayQuiz questions s = s\<lparr>quizContent := questions, quizResult_hidden := False\<rparr>"

definition displayHistory :: "saved_session list \<Rightarrow> app \<Rightarrow> app" where
  "displayHistory sessions s = s\<lparr>historyList := sessions\<rparr>"

subsection \<open>Status polling\<close>

text \<open>
  \<open>updateProcessingStatus\<close> returns at once without a session; otherwise it fetches
  \<open>/status/${this.currentSessionId}\<close> and suspends. The parameter is the continuation
  that waits: its own rest, or that followed by the rest of \<open>loadSession\<close>.
\<close>

definition updateProcessingStatus :: "continuation \<Rightarrow> app \<Rightarrow> app" where
  "updateProcessingStatus k s =
     (if falsy (currentSessionId s) then s
      else fetch (GET (''/status/'' @ session_text (currentSessionId s))) k s)"

definition updateProcessingStatus_k :: "app \<Rightarrow> status_body fetched \<Rightarrow> app" where
  "updateProcessingStatus_k s r =
     (case settle (\<lambda>_. ''Failed to get status'') r of
        Inl m \<Rightarrow> console_error ''Status check error:'' m s
      | Inr status \<Rightarrow>
          let s1 = displayProcessingStatus status s
          in if sb_status status = ''completed''
             then stopStatusChecking (showResultsSection s1)
             else s1)"

definition showProcessingSection :: "app \<Rightarrow> app" where
  "showProcessingSection s =
     updateProcessingStatus K_updateProcessingStatus
       (s\<lparr>uploadSection_hidden := True, processingSection_hidden := False\<rparr>)"

subsection \<open>Upload\<close>

text \<open>The body of \<open>POST /upload\<close>: \<open>{session_id}\<close>.\<close>

record upload_body =
  ub_session_id :: string

text \<open>
  \<open>uploadFiles\<close> up to \<open>await fetch('/upload', ...)\<close>: the check of the file input, the
  loading overlay, the form data with one field \<open>files\<close> for each file.
\<close>

definition uploadFiles :: "app \<Rightarrow> app" where
  "uploadFiles s =
     (let files = fileInput_files s
      in if length files = 0 then showToast ''Please select files to upload'' ''error'' s
         else fetch (POST ''/upload'' (map (\<lambda>f. (''files'', FileValue f)) files)) K_uploadFiles
                (showLoadingOverlay s))"

text \<open>
  The rest of \<open>uploadFiles\<close>. On a body, the session identifier is stored, the processing
  section is shown (which issues a status request), the timer is started and the form is
  reset; on an error, the \<open>catch\<close> block logs it and shows a toast. The \<open>finally\<close>
  block hides the overlay in both cases.
\<close>

definition uploadFiles_k :: "app \<Rightarrow> upload_body fetched \<Rightarrow> app" where
  "uploadFiles_k s r =
     hideLoadingOverlay
       (case settle (\<lambda>statusText. ''Upload failed: '' @ statusText) r of
          Inl m \<Rightarrow>
            showToast (''Upload failed: '' @ m) ''error'' (console_error ''Upload error:'' m s)
        | Inr result \<Rightarrow>
            let s1 = s\<lparr>currentSessionId := Some (ub_session_id result)\<rparr>;
                s2 = showToast ''Files uploaded successfully!'' ''success'' s1;
                s3 = showProcessingSection s2;
                s4 = startStatusChecking s3
            in s4\<lparr>fileInput_files := [], fileList_hidden := True, uploadBtn_disabled := True\<rparr>)"

subsection \<open>Summary and quiz\<close>

text \<open>The bodies of \<open>GET /summary/{session_id}\<close> and \<open>GET /quiz/{session_id}\<close> are
  \<open>{content}\<close> and \<open>{questions}\<close>; the settled request carries the field itself. The
  \<open>finally\<close> block hides the overlay on every path.\<close>

definition generateSummary :: "app \<Rightarrow> app" where
  "generateSummary s =
     (if falsy (currentSessionId s) then s
      else let summaryType = summaryType_value s
           in fetch (GET (''/summary/'' @ session_text (currentSessionId s)
                            @ ''?summary_type='' @ summaryType)) K_generateSummary
                (showLoadingOverlay s))"

definition generateSummary_k :: "app \<Rightarrow> string fetched \<Rightarrow> app" where
  "generateSummary_k s r =
     hideLoadingOverlay
       (case settle (\<lambda>_. ''Failed to generate summary'') r of
          Inl m \<Rightarrow>
            showToast ''Failed to generate summary'' ''error''
              (console_error ''Summary generation error:'' m s)
        | Inr content \<Rightarrow> displaySummary content s)"

definition generateQuiz :: "app \<Rightarrow> app" where
  "generateQuiz s =
     (if falsy (currentSessionId s) then s
      else let questionCount = questionCount_value s
           in fetch (GET (''/quiz/'' @ session_text (currentSessionId s)
                            @ ''?question_count='' @ questionCount)) K_generateQuiz
                (showLoadingOverlay s))"

definition generateQuiz_k :: "app \<Rightarrow> question list fetched \<Rightarrow> app" where
  "generateQuiz_k s r =
     hideLoadingOverlay
       (case settle (\<lambda>_. ''Failed to generate quiz'') r of
          Inl m \<Rightarrow>
            showToast ''Failed to generate quiz'' ''error''
              (console_error ''Quiz generation error:'' m s)
        | Inr questions \<Rightarrow> displayQuiz questions s)"

subsection \<open>Saving a session\<close>

text \<open>\<open>String.prototype.trim\<close> on strings of code units below 256: the white space there
  is tab, line feed, vertical tab, form feed, carriage return, space and no-break space.\<close>

definition is_white_space :: "char \<Rightarrow> bool" where
  "is_white_space c = ((of_char c :: nat) \<in> {9, 10, 11, 12, 13, 32, 160})"

definition trim :: "string \<Rightarrow> string" where
  "trim x = rev (dropWhile is_white_space (rev (dropWhile is_white_space x)))"

definition saveSession :: "app \<Rightarrow> app" where
  "saveSession s =
     (if falsy (currentSessionId s) then s
      else let sessionName = trim (sessionName_value s)
           in if sessionName = [] then showToast ''Please enter a session name'' ''error'' s
              else fetch (POST (''/save-session/'' @ session_text (currentSessionId s))
                            [(''session_name'', Text sessionName)]) K_saveSession s)"

text \<open>The rest of \<open>saveSession\<close> reads only \<open>response.ok\<close>, never the body.\<close>

definition saveSession_k :: "app \<Rightarrow> unit fetched \<Rightarrow> app" where
  "saveSession_k s r =
     (case (case r of Rejected m \<Rightarrow> Some m
                    | Response ok _ _ \<Rightarrow> if \<not> ok then Some ''Failed to save session'' else None) of
        Some m \<Rightarrow>
          showToast ''Failed to save session'' ''error'' (console_error ''Save session error:'' m s)
      | None \<Rightarrow>
          (showToast ''Session saved successfully!'' ''success'' s)\<lparr>sessionName_value := []\<rparr>)"

subsection \<open>History and loading a saved session\<close>

definition showHistory :: "app \<Rightarrow> app" where
  "showHistory s = fetch (GET ''/saved-sessions'') K_showHistory s"

definition showHistory_k :: "app \<Rightarrow> saved_session list fetched \<Rightarrow> app" where
  "showHistory_k s r =
     (case settle (\<lambda>_. ''Failed to load history'') r of
        Inl m \<Rightarrow>
          showToast ''Failed to load history'' ''error'' (console_error ''History load error:'' m s)
      | Inr sessions \<Rightarrow> (displayHistory sessions s)\<lparr>historyModal_hidden := False\<rparr>)"

text \<open>
  \<open>loadSession\<close> after \<open>await this.updateProcessingStatus()\<close>: a third status request,
  for the argument \<open>sessionId\<close>, and its continuation, which shows the results section
  when the response is \<open>ok\<close> and reports \<open>completed\<close>. A response that is not \<open>ok\<close>
  is dropped without a log; an error of \<open>fetch\<close> or of \<open>json()\<close> is logged.
\<close>

definition loadSession_rest :: "string \<Rightarrow> app \<Rightarrow> app" where
  "loadSession_rest sessionId s = fetch (GET (''/status/'' @ sessionId)) (K_loadSession_final sessionId) s"

definition loadSession_k :: "app \<Rightarrow> status_body fetched \<Rightarrow> app" where
  "loadSession_k s r =
     (case r of
        Rejected m \<Rightarrow> console_error ''Error loading session:'' m s
      | Response ok _ json \<Rightarrow>
          if ok then
            (case json of
               Inl m \<Rightarrow> console_error ''Error loading session:'' m s
             | Inr status \<Rightarrow>
                 if sb_status status = ''completed'' then showResultsSection s else s)
          else s)"

text \<open>
  \<open>loadSession\<close> up to its first suspension. \<open>showProcessingSection\<close> calls
  \<open>updateProcessingStatus\<close> without awaiting it; the second call is awaited. When there
  is no session to poll the awaited call returns at once and the method goes on to its
  third request in the same turn.
\<close>

definition loadSession :: "string \<Rightarrow> app \<Rightarrow> app" where
  "loadSession sessionId s =
     (let s1 = s\<lparr>currentSessionId := Some sessionId\<rparr>;
          s2 = hideHistory s1;
          s3 = showProcessingSection s2
      in if falsy (currentSessionId s3) then loadSession_rest sessionId s3
         else updateProcessingStatus (K_loadSession_awaited sessionId) s3)"

subsection \<open>The visibility listener\<close>

text \<open>The listener of \<open>visibilitychange\<close>; the argument is \<open>document.hidden\<close>.\<close>

definition visibilitychange :: "bool \<Rightarrow> app \<Rightarrow> app" where
  "visibilitychange hidden s =
     (if hidden then stopStatusChecking s
      else if \<not> falsy (currentSessionId s) \<and> processingSection_hidden s = False
           then startStatusChecking s
           else s)"

subsection \<open>Events and runs\<close>

text \<open>
  The listeners registered by \<open>initializeEventListeners\<close>, the \<open>onclick\<close> of a history
  entry, the callback of the interval timer, the visibility listener, and the settling of
  a request in flight (by its position in \<open>pending\<close>). The three inputs of the page are
  set by the user.
\<close>

datatype event =
    SelectFiles "js_file list"
  | DropFiles "js_file list"
  | Submit
  | ClickGenerateSummary
  | ClickGenerateQuiz
  | ClickSaveSession
  | ClickHistory
  | ClickCloseHistory
  | ClickView string
  | InputSessionName string
  | SelectSummaryType string
  | InputQuestionCount string
  | Tick nat
  | VisibilityChange bool
  | UploadSettled nat "upload_body fetched"
  | StatusSettled nat "status_body fetched"
  | SummarySettled nat "string fetched"
  | QuizSettled nat "question list fetched"
  | SaveSettled nat "unit fetched"
  | HistorySettled nat "saved_session list fetched"

definition awaiting :: "nat \<Rightarrow> app \<Rightarrow> continuation option" where
  "awaiting n s = (if n < length (pending s) then Some (snd (pending s ! n)) else None)"

definition settled :: "nat \<Rightarrow> app \<Rightarrow> app" where
  "settled n s = s\<lparr>pending := take n (pending s) @ drop (Suc n) (pending s)\<rparr>"

text \<open>
  One step. \<open>None\<close> means the event cannot happen in this state: a tick of a timer that
  is not registered, or a response for which no matching request is in flight. Which
  clicks the page lets the user make in a given state depends on the template and its
  style sheet; the step function runs the listener of any click.
\<close>

fun step :: "app \<Rightarrow> event \<Rightarrow> app option" where
  "step s (SelectFiles files) = Some (handleFileSelection files (s\<lparr>fileInput_files := files\<rparr>))"
| "step s (DropFiles files) = Some (handleFileSelection files s)"
| "step s Submit = Some (uploadFiles s)"
| "step s ClickGenerateSummary = Some (generateSummary s)"
| "step s ClickGenerateQuiz = Some (generateQuiz s)"
| "step s ClickSaveSession = Some (saveSession s)"
| "step s ClickHistory = Some (showHistory s)"
| "step s ClickCloseHistory = Some (hideHistory s)"
| "step s (ClickView sessionId) = Some (loadSession sessionId s)"
| "step s (InputSessionName v) = Some (s\<lparr>sessionName_value := v\<rparr>)"
| "step s (SelectSummaryType v) = Some (s\<lparr>summaryType_value := v\<rparr>)"
| "step s (InputQuestionCount v) = Some (s\<lparr>questionCount_value := v\<rparr>)"
| "step s (Tick t) =
     (if t \<in> set (active_timers s) then Some (updateProcessingStatus K_updateProcessingStatus s)
      else None)"
| "step s (VisibilityChange hidden) = Some (visibilitychange hidden s)"
| "step s (UploadSettled n r) =
     (case awaiting n s of
        Some K_uploadFiles \<Rightarrow> Some (uploadFiles_k (settled n s) r)
      | _ \<Rightarrow> None)"
| "step s (StatusSettled n r) =
     (case awaiting n s of
        Some K_updateProcessingStatus \<Rightarrow> Some (updateProcessingStatus_k (settled n s) r)
      | Some (K_loadSession_awaited sessionId) \<Rightarrow>
          Some (loadSession_rest sessionId (updateProcessingStatus_k (settled n s) r))
      | Some (K_loadSession_final sessionId) \<Rightarrow> Some (loadSession_k (settled n s) r)
      | _ \<Rightarrow> None)"
| "step s (SummarySettled n r) =
     (case awaiting n s of
        Some K_generateSummary \<Rightarrow> Some (generateSummary_k (settled n s) r)
      | _ \<Rightarrow> None)"
| "step s (QuizSettled n r) =
     (case awaiting n s of
        Some K_generateQuiz \<Rightarrow> Some (generateQuiz_k (settled n s) r)
      | _ \<Rightarrow> None)"
| "step s (SaveSettled n r) =
     (case awaiting n s of
        Some K_saveSession \<Rightarrow> Some (saveSession_k (settled n s) r)
      | _ \<Rightarrow> None)"
| "step s (HistorySettled n r) =
     (case awaiting n s of
        Some K_showHistory \<Rightarrow> Some (showHistory_k (settled n s) r)
      | _ \<Rightarrow> None)"

fun run :: "app \<Rightarrow> event list \<Rightarrow> app option" where
  "run s [] = Some s"
| "run s (e # es) = (case step s e of None \<Rightarrow> None | Some s' \<Rightarrow> run s' es)"

subsection \<open>The page as loaded, and the phase it shows\<close>

text \<open>
  Modelled from the spec: the template of the page (templates/index.html) is not among
  the sources, so the classes and values its elements start with are taken from the spec's
  initial phase: the upload section is shown, every other section and overlay is hidden,
  nothing is selected or typed. The values of the two inputs \<open>summaryType\<close> and
  \<open>questionCount\<close> stand for whatever the template preselects. The two fields are
  set by the constructor. The first timer identifier is 1, as \<open>setInterval\<close> returns
  positive integers.
\<close>

definition initial :: app where
  "initial =
     \<lparr>currentSessionId = None, statusCheckInterval = None,
      uploadSection_hidden = False, processingSection_hidden = True,
      resultsSection_hidden = True, historyModal_hidden = True,
      loadingOverlay_hidden = True, fileList_hidden = True,
      summaryResult_hidden = True, quizResult_hidden = True,
      uploadBtn_disabled = True, fileInput_files = [], fileList_items = [],
      processingStatus = [], summaryContent = [], quizContent = [], historyList = [],
      sessionName_value = [], summaryType_value = ''medium'', questionCount_value = ''5'',
      toasts = [], console = [], active_timers = [], cleared_timers = [], next_timer = 1,
      requests = [], pending = []\<rparr>"

text \<open>The phase is read off the three sections: it is defined when exactly one of them is
  shown.\<close>

datatype phase = Upload | Processing | Results

definition phase :: "app \<Rightarrow> phase option" where
  "phase s =
     (if \<not> uploadSection_hidden s \<and> processingSection_hidden s \<and> resultsSection_hidden s
        then Some Upload
      else if uploadSection_hidden s \<and> \<not> processingSection_hidden s \<and> resultsSection_hidden s
        then Some Processing
      else if uploadSection_hidden s \<and> processingSection_hidden s \<and> \<not> resultsSection_hidden s
        then Some Results
      else None)"

subsection \<open>Responses and example data\<close>

text \<open>A response with a 2xx status whose body decodes to the given value.\<close>

definition ok_response :: "'a \<Rightarrow> 'a fetched" where
  "ok_response body = Response True ''OK'' (Inr body)"

text \<open>The body the \<open>try\<close> block of a status handler gets to see: that of a 2xx response
  whose body decodes.\<close>

definition decoded :: "'a fetched \<Rightarrow> 'a option" where
  "decoded r =
     (case r of
        Rejected _ \<Rightarrow> None
      | Response ok _ json \<Rightarrow>
          if ok then (case json of Inl _ \<Rightarrow> None | Inr body \<Rightarrow> Some body) else None)"

text \<open>Whether a settled status request is a 2xx response whose body reports
  \<open>completed\<close>.\<close>

definition reports_completed :: "status_body fetched \<Rightarrow> bool" where
  "reports_completed r =
     (case r of
        Rejected _ \<Rightarrow> False
      | Response ok _ json \<Rightarrow>
          ok \<and> (case json of Inl _ \<Rightarrow> False | Inr status \<Rightarrow> sb_status status = ''completed''))"

text \<open>The file, the status bodies and the saved session of the scenarios of the spec.\<close>

definition doc_pdf :: js_file where
  "doc_pdf = \<lparr>file_name = ''doc.pdf'', file_size = 1000\<rparr>"

definition uploaded :: "string \<Rightarrow> upload_body fetched" where
  "uploaded sessionId = ok_response \<lparr>ub_session_id = sessionId\<rparr>"

definition status_of :: "string \<Rightarrow> string \<Rightarrow> status_body" where
  "status_of filename status =
     \<lparr>sb_status = status,
      sb_files = [\<lparr>fs_filename = filename, fs_file_type = ''pdf'', fs_status = status\<rparr>]\<rparr>"

definition saved_s2 :: saved_session where
  "saved_s2 = \<lparr>ss_session_id = ''s2'', ss_session_name = ''notes'', ss_updated_at = ''2025-01-01''\<rparr>"

text \<open>Scenarios 1 and 3 of the spec: \<open>doc.pdf\<close> is selected and uploaded, the server
  answers \<open>{session_id: "s1"}\<close>; the first status response reports \<open>completed\<close>;
  a summary is then requested and displayed.\<close>

definition upload_s1 :: "event list" where
  "upload_s1 = [SelectFiles [doc_pdf], Submit, UploadSettled 0 (uploaded ''s1'')]"

definition completed_s1 :: "event list" where
  "completed_s1 = upload_s1 @ [StatusSettled 0 (ok_response (status_of ''doc.pdf'' ''completed''))]"

definition summarised_s1 :: "event list" where
  "summarised_s1 =
     completed_s1 @ [ClickGenerateSummary, SummarySettled 0 (ok_response ''A summary'')]"

text \<open>Two submits before the first upload response arrives, both answered with a session.\<close>

definition double_submit :: "event list" where
  "double_submit =
     [SelectFiles [doc_pdf], Submit, Submit,
      UploadSettled 0 (uploaded ''s1''), UploadSettled 0 (uploaded ''s2'')]"

text \<open>Scenario 6 of the spec: after the upload of session \<open>s1\<close>, while its first status
  request is in flight, the history is opened and the saved session \<open>s2\<close> is loaded; the
  first status response for \<open>s2\<close> arrives and is displayed.\<close>

definition load_s2 :: "event list" where
  "load_s2 =
     upload_s1 @
     [ClickHistory, HistorySettled 1 (ok_response [saved_s2]), ClickView ''s2'',
      StatusSettled 1 (ok_response (status_of ''notes.pdf'' ''processing''))]"

text \<open>The row displayed for a file of type \<open>pdf\<close> whose status is one of the four the
  server reports: the type reads \<open>PDF\<close> (code units 80, 68, 70) and the class of the
  badge is the status itself.\<close>

definition pdf_row :: "string \<Rightarrow> string \<Rightarrow> status_row" where
  "pdf_row filename status =
     \<lparr>row_filename = filename, row_file_type = [80, 68, 70],
      row_badge_class = status, row_badge_text = status\<rparr>"

text \<open>The states these scenarios reach from the page as loaded: after the upload of
  \<open>s1\<close>, after its summary is displayed, and after \<open>s2\<close> is loaded.\<close>

definition processing_s1 :: app where
  "processing_s1 =
     initial
       \<lparr>currentSessionId := Some ''s1'', statusCheckInterval := Some 1,
        uploadSection_hidden := True, processingSection_hidden := False,
        fileList_items := [doc_pdf],
        toasts := [(''Files uploaded successfully!'', ''success'')],
        active_timers := [1], next_timer := 2,
        requests := [POST ''/upload'' [(''files'', FileValue doc_pdf)], GET ''/status/s1''],
        pending := [(GET ''/status/s1'', K_updateProcessingStatus)]\<rparr>"

definition results_s1 :: app where
  "results_s1 =
     processing_s1
       \<lparr>statusCheckInterval := None,
        processingSection_hidden := True, resultsSection_hidden := False,
        summaryResult_hidden := False,
        processingStatus :=
          [pdf_row ''doc.pdf'' ''completed''],
        summaryContent := ''A summary'',
        active_timers := [], cleared_timers := [1],
        requests := [POST ''/upload'' [(''files'', FileValue doc_pdf)], GET ''/status/s1'',
                     GET ''/summary/s1?summary_type=medium''],
        pending := []\<rparr>"

definition loaded_s2 :: app where
  "loaded_s2 =
     processing_s1
       \<lparr>currentSessionId := Some ''s2'',
        processingStatus :=
          [pdf_row ''notes.pdf'' ''processing''],
        historyList := [saved_s2],
        requests := [POST ''/upload'' [(''files'', FileValue doc_pdf)], GET ''/status/s1'',
                     GET ''/saved-sessions'', GET ''/status/s2'', GET ''/status/s2''],
        pending := [(GET ''/status/s1'', K_updateProcessingStatus),
                    (GET ''/status/s2'', K_loadSession_awaited ''s2'')]\<rparr>"

text \<open>After \<open>s2\<close> is loaded, the awaited status response for \<open>s2\<close> arrives as well
  (still \<open>processing\<close>), and \<open>loadSession\<close> sends its final status request.\<close>

definition awaited_s2 :: "event list" where
  "awaited_s2 = load_s2 @ [StatusSettled 1 (ok_response (status_of ''notes.pdf'' ''processing''))]"

definition final_s2 :: app where
  "final_s2 =
     loaded_s2
       \<lparr>requests := [POST ''/upload'' [(''files'', FileValue doc_pdf)], GET ''/status/s1'',
                     GET ''/saved-sessions'', GET ''/status/s2'', GET ''/status/s2'',
                     GET ''/status/s2''],
        pending := [(GET ''/status/s1'', K_updateProcessingStatus),
                    (GET ''/status/s2'', K_loadSession_final ''s2'')]\<rparr>"

text \<open>The timer identifiers of a state are in order when every registered timer and the
  held one are positive and below the next identifier, and no timer is registered twice.\<close>

definition timers_in_order :: "app \<Rightarrow> bool" where
  "timers_in_order s =
     (0 < next_timer s \<and>
      list_all (\<lambda>t. 0 < t \<and> t < next_timer s) (active_timers s) \<and>
      distinct (active_timers s) \<and>
      (case statusCheckInterval s of None \<Rightarrow> True | Some t \<Rightarrow> 0 < t \<and> t < next_timer s))"

text \<open>The page is hidden while the upload is in flight, shown again after the response,
  and hidden once more.\<close>

definition hidden_during_upload :: "event list" where
  "hidden_during_upload =
     [SelectFiles [doc_pdf], Submit, VisibilityChange True, UploadSettled 0 (uploaded ''s1''),
      VisibilityChange False, VisibilityChange True]"

section \<open>Properties\<close>

lemmas method_defs =
  falsy_def session_text_def fetch_def GET_def POST_def settle_def showToast_def
  console_error_def showLoadingOverlay_def hideLoadingOverlay_def hideHistory_def
  handleFileSelection_def toUpperCase_def getStatusClass_def fileStatus_def
  displayProcessingStatus_def startStatusChecking_def
  stopStatusChecking_def showResultsSection_def displaySummary_def displayQuiz_def
  displayHistory_def updateProcessingStatus_def updateProcessingStatus_k_def
  showProcessingSection_def uploadFiles_def uploadFiles_k_def generateSummary_def
  generateSummary_k_def generateQuiz_def generateQuiz_k_def saveSession_def
  saveSession_k_def showHistory_def showHistory_k_def loadSession_rest_def
  loadSession_k_def loadSession_def visibilitychange_def awaiting_def settled_def

lemmas example_defs =
  ok_response_def doc_pdf_def uploaded_def status_of_def saved_s2_def pdf_row_def
  upload_s1_def completed_s1_def summarised_s1_def double_submit_def load_s2_def
  hidden_during_upload_def awaited_s2_def final_s2_def
  processing_s1_def results_s1_def loaded_s2_def initial_def

subsection \<open>The example states are reached\<close>



lemma loaded_s2_reached: "run initial load_s2 = Some loaded_s2"
  by (simp add: method_defs example_defs Let_def)

lemma final_s2_reached: "run initial awaited_s2 = Some final_s2"
  by (simp add: method_defs example_defs Let_def)

subsection \<open>Submitting an empty selection\<close>

text \<open>
  Claim C3. When the file input holds no file, the submit listener runs \<open>uploadFiles\<close>,
  which sends no request (the log of requests and the requests in flight are as before),
  shows the error toast \<open>Please select files to upload\<close>, and leaves the phase and the
  current session identifier as they were.
\<close>

theorem submit_empty_selection:
  assumes "fileInput_files s = []"
  shows "step s Submit = Some (uploadFiles s) \<and>
         requests (uploadFiles s) = requests s \<and>
         pending (uploadFiles s) = pending s \<and>
         toasts (uploadFiles s) = toasts s @ [(''Please select files to upload'', ''error'')] \<and>
         phase (uploadFiles s) = phase s \<and>
         currentSessionId (uploadFiles s) = currentSessionId s"
  using assms by (simp add: uploadFiles_def showToast_def phase_def)

theorem submit_empty_selection_witness:
  "fileInput_files initial = [] \<and>
   requests (uploadFiles initial) = [] \<and>
   toasts (uploadFiles initial) = [(''Please select files to upload'', ''error'')] \<and>
   phase (uploadFiles initial) = Some Upload \<and>
   currentSessionId (uploadFiles initial) = None"
  using submit_empty_selection [of initial] by (simp add: initial_def phase_def)

subsection \<open>Actions without a session\<close>

text \<open>
  Claim C10. While the current session identifier is falsy (\<open>null\<close> or the empty
  string), \<open>generateSummary\<close>, \<open>generateQuiz\<close> and \<open>saveSession\<close> return the state
  they were given: no request, no toast, no change of any field or element.
\<close>

theorem no_session_silent_no_op:
  assumes "falsy (currentSessionId s)"
  shows "generateSummary s = s \<and> generateQuiz s = s \<and> saveSession s = s"
  using assms by (simp add: generateSummary_def generateQuiz_def saveSession_def)

theorem no_session_silent_no_op_witness:
  "falsy (currentSessionId initial) \<and>
   generateSummary initial = initial \<and> generateQuiz initial = initial \<and>
   saveSession initial = initial"
proof -
  have h: "falsy (currentSessionId initial)" by (simp add: initial_def falsy_def)
  from h no_session_silent_no_op [OF h] show ?thesis by simp
qed

subsection \<open>A failed upload\<close>

text \<open>The \<open>catch\<close> and \<open>finally\<close> blocks of \<open>uploadFiles\<close> on a rejected \<open>fetch\<close> or a
  response that is not \<open>ok\<close>, in any state.\<close>

lemma uploadFiles_k_failure:
  assumes "r = Rejected m \<or> r = Response False statusText json"
  shows "uploadFiles_k s r =
     hideLoadingOverlay (showToast (''Upload failed: '' @
                          (case r of Rejected e \<Rightarrow> e
                                   | Response _ st _ \<Rightarrow> ''Upload failed: '' @ st)) ''error''
        (console_error ''Upload error:'' (case r of Rejected e \<Rightarrow> e
                                   | Response _ st _ \<Rightarrow> ''Upload failed: '' @ st) s))"
  using assms by (elim disjE) (simp_all add: uploadFiles_k_def settle_def)

text \<open>
  Claim C5. A submit with files selected whose request is rejected (transport failure) or
  answered with a response that is not \<open>ok\<close> ends with one more toast, of type
  \<open>error\<close>, and with the phase, the current session identifier, the timer handle and
  the registered timers as they were before the submit; the only request sent is the
  upload itself, and nothing is left in flight.
\<close>

theorem upload_failure_commits_nothing:
  assumes "fileInput_files s \<noteq> []"
    and "r = Rejected m \<or> r = Response False statusText json"
  shows "case run s [Submit, UploadSettled (length (pending s)) r] of
            None \<Rightarrow> False
          | Some s' \<Rightarrow>
              toasts s' =
                toasts s @ [(''Upload failed: '' @
                               (case r of Rejected e \<Rightarrow> e
                                        | Response _ st _ \<Rightarrow> ''Upload failed: '' @ st), ''error'')] \<and>
              phase s' = phase s \<and>
              currentSessionId s' = currentSessionId s \<and>
              statusCheckInterval s' = statusCheckInterval s \<and>
              active_timers s' = active_timers s \<and>
              next_timer s' = next_timer s \<and>
              processingStatus s' = processingStatus s \<and>
              fileInput_files s' = fileInput_files s \<and>
              pending s' = pending s \<and>
              requests s' =
                requests s @ [POST ''/upload'' (map (\<lambda>f. (''files'', FileValue f)) (fileInput_files s))]"
proof -
  have b: "step s Submit = Some (fetch (POST ''/upload'' (map (\<lambda>f. (''files'', FileValue f)) (fileInput_files s)))
              K_uploadFiles (showLoadingOverlay s))"
    using assms(1) by (simp add: uploadFiles_def)
  show ?thesis
    unfolding run.simps b
    by (simp add: uploadFiles_k_failure [OF assms(2)] awaiting_def settled_def fetch_def
        showLoadingOverlay_def showToast_def console_error_def hideLoadingOverlay_def phase_def)
qed

theorem upload_failure_commits_nothing_witness:
  "fileInput_files (handleFileSelection [doc_pdf] (initial\<lparr>fileInput_files := [doc_pdf]\<rparr>)) \<noteq> [] \<and>
   (case run (handleFileSelection [doc_pdf] (initial\<lparr>fileInput_files := [doc_pdf]\<rparr>))
           [Submit, UploadSettled 0 (Response False ''Internal Server Error'' (Inl ''''))] of
      None \<Rightarrow> False
    | Some s' \<Rightarrow>
        toasts s' = [(''Upload failed: Upload failed: Internal Server Error'', ''error'')] \<and>
        phase s' = Some Upload \<and> currentSessionId s' = None \<and>
        statusCheckInterval s' = None \<and> active_timers s' = [])"
  using upload_failure_commits_nothing
          [of "handleFileSelection [doc_pdf] (initial\<lparr>fileInput_files := [doc_pdf]\<rparr>)"
              "Response False ''Internal Server Error'' (Inl '''')"
              "''''" "''Internal Server Error''" "Inl ''''"]
  by (simp add: method_defs initial_def phase_def doc_pdf_def Let_def)

subsection \<open>Summary and quiz requests that fail\<close>

text \<open>
  Claim C6. With a current session, a summary or quiz request that is rejected or
  answered with a response that is not \<open>ok\<close> ends with one more toast of type
  \<open>error\<close> and with the summary and quiz elements (content and visibility) as they
  were before the click. A 2xx response with a body replaces the content of its own
  element and shows it, and leaves the other element alone.
\<close>

theorem summary_quiz_failure_keeps_display:
  assumes "\<not> falsy (currentSessionId s)"
    and "r = Rejected m \<or> r = Response False statusText json"
    and "q = Rejected m' \<or> q = Response False statusText' json'"
  shows "(case run s [ClickGenerateSummary, SummarySettled (length (pending s)) r] of
            None \<Rightarrow> False
          | Some s' \<Rightarrow>
              toasts s' = toasts s @ [(''Failed to generate summary'', ''error'')] \<and>
              summaryContent s' = summaryContent s \<and>
              summaryResult_hidden s' = summaryResult_hidden s \<and>
              quizContent s' = quizContent s \<and>
              quizResult_hidden s' = quizResult_hidden s \<and>
              phase s' = phase s) \<and>
         (case run s [ClickGenerateQuiz, QuizSettled (length (pending s)) q] of
            None \<Rightarrow> False
          | Some s' \<Rightarrow>
              toasts s' = toasts s @ [(''Failed to generate quiz'', ''error'')] \<and>
              summaryContent s' = summaryContent s \<and>
              summaryResult_hidden s' = summaryResult_hidden s \<and>
              quizContent s' = quizContent s \<and>
              quizResult_hidden s' = quizResult_hidden s \<and>
              phase s' = phase s) \<and>
         (case run s [ClickGenerateSummary, SummarySettled (length (pending s)) (ok_response content)] of
            None \<Rightarrow> False
          | Some s' \<Rightarrow>
              toasts s' = toasts s \<and>
              summaryContent s' = content \<and> summaryResult_hidden s' = False \<and>
              quizContent s' = quizContent s \<and>
              quizResult_hidden s' = quizResult_hidden s) \<and>
         (case run s [ClickGenerateQuiz, QuizSettled (length (pending s)) (ok_response questions)] of
            None \<Rightarrow> False
          | Some s' \<Rightarrow>
              toasts s' = toasts s \<and>
              quizContent s' = questions \<and> quizResult_hidden s' = False \<and>
              summaryContent s' = summaryContent s \<and>
              summaryResult_hidden s' = summaryResult_hidden s)"
proof -
  have fs: "generateSummary_k s0 r =
      hideLoadingOverlay (showToast ''Failed to generate summary'' ''error''
        (console_error ''Summary generation error:''
           (case r of Rejected e \<Rightarrow> e | Response _ _ _ \<Rightarrow> ''Failed to generate summary'') s0))" for s0
    using assms(2) by (elim disjE) (simp_all add: generateSummary_k_def settle_def)
  have fq: "generateQuiz_k s0 q =
      hideLoadingOverlay (showToast ''Failed to generate quiz'' ''error''
        (console_error ''Quiz generation error:''
           (case q of Rejected e \<Rightarrow> e | Response _ _ _ \<Rightarrow> ''Failed to generate quiz'') s0))" for s0
    using assms(3) by (elim disjE) (simp_all add: generateQuiz_k_def settle_def)
  have os: "generateSummary_k s0 (ok_response content) = hideLoadingOverlay (displaySummary content s0)" for s0
    by (simp add: generateSummary_k_def settle_def ok_response_def)
  have oq: "generateQuiz_k s0 (ok_response questions) = hideLoadingOverlay (displayQuiz questions s0)" for s0
    by (simp add: generateQuiz_k_def settle_def ok_response_def)
  have bs: "step s ClickGenerateSummary =
      Some (fetch (GET (''/summary/'' @ session_text (currentSessionId s)
                            @ ''?summary_type='' @ summaryType_value s)) K_generateSummary
                (showLoadingOverlay s))"
    using assms(1) by (simp add: generateSummary_def)
  have bq: "step s ClickGenerateQuiz =
      Some (fetch (GET (''/quiz/'' @ session_text (currentSessionId s)
                            @ ''?question_count='' @ questionCount_value s)) K_generateQuiz
                (showLoadingOverlay s))"
    using assms(1) by (simp add: generateQuiz_def)
  have 1: "(case run s [ClickGenerateSummary, SummarySettled (length (pending s)) r] of
            None \<Rightarrow> False
          | Some s' \<Rightarrow>
              toasts s' = toasts s @ [(''Failed to generate summary'', ''error'')] \<and>
              summaryContent s' = summaryContent s \<and>
              summaryResult_hidden s' = summaryResult_hidden s \<and>
              quizContent s' = quizContent s \<and>
              quizResult_hidden s' = quizResult_hidden s \<and>
              phase s' = phase s)"
    unfolding run.simps bs
    by (simp add: fs awaiting_def settled_def fetch_def showLoadingOverlay_def showToast_def
        console_error_def hideLoadingOverlay_def phase_def)
  have 2: "(case run s [ClickGenerateQuiz, QuizSettled (length (pending s)) q] of
            None \<Rightarrow> False
          | Some s' \<Rightarrow>
              toasts s' = toasts s @ [(''Failed to generate quiz'', ''error'')] \<and>
              summaryContent s' = summaryContent s \<and>
              summaryResult_hidden s' = summaryResult_hidden s \<and>
              quizContent s' = quizContent s \<and>
              quizResult_hidden s' = quizResult_hidden s \<and>
              phase s' = phase s)"
    unfolding run.simps bq
    by (simp add: fq awaiting_def settled_def fetch_def showLoadingOverlay_def showToast_def
        console_error_def hideLoadingOverlay_def phase_def)
  have 3: "(case run s [ClickGenerateSummary, SummarySettled (length (pending s)) (ok_response content)] of
            None \<Rightarrow> False
          | Some s' \<Rightarrow>
              toasts s' = toasts s \<and>
              summaryContent s' = content \<and> summaryResult_hidden s' = False \<and>
              quizContent s' = quizContent s \<and>
              quizResult_hidden s' = quizResult_hidden s)"
    unfolding run.simps bs
    by (simp add: os awaiting_def settled_def fetch_def showLoadingOverlay_def
        displaySummary_def hideLoadingOverlay_def)
  have 4: "(case run s [ClickGenerateQuiz, QuizSettled (length (pending s)) (ok_response questions)] of
            None \<Rightarrow> False
          | Some s' \<Rightarrow>
              toasts s' = toasts s \<and>
              quizContent s' = questions \<and> quizResult_hidden s' = False \<and>
              summaryContent s' = summaryContent s \<and>
              summaryResult_hidden s' = summaryResult_hidden s)"
    unfolding run.simps bq
    by (simp add: oq awaiting_def settled_def fetch_def showLoadingOverlay_def
        displayQuiz_def hideLoadingOverlay_def)
  from 1 2 3 4 show ?thesis by blast
qed

theorem summary_quiz_failure_keeps_display_witness:
  "\<not> falsy (currentSessionId (results_s1)) \<and>
   (case run (results_s1)
           [ClickGenerateSummary, SummarySettled 0 (Rejected ''Failed to fetch'')] of
      None \<Rightarrow> False
    | Some s' \<Rightarrow>
        summaryContent s' = ''A summary'' \<and> summaryResult_hidden s' = False \<and>
        toasts s' = [(''Files uploaded successfully!'', ''success''),
                     (''Failed to generate summary'', ''error'')] \<and>
        phase s' = Some Results) \<and>
   (case run (results_s1)
           [ClickGenerateQuiz, QuizSettled 0 (Response False ''Bad Gateway'' (Inl ''''))] of
      None \<Rightarrow> False
    | Some s' \<Rightarrow>
        summaryContent s' = ''A summary'' \<and> quizContent s' = [] \<and> quizResult_hidden s' = True \<and>
        toasts s' = [(''Files uploaded successfully!'', ''success''),
                     (''Failed to generate quiz'', ''error'')])"
  using summary_quiz_failure_keeps_display
          [of "results_s1"
              "Rejected ''Failed to fetch''" "''Failed to fetch''" "''''" "Inl ''''"
              "Response False ''Bad Gateway'' (Inl '''')" "''''" "''Bad Gateway''" "Inl ''''"
              "''''" "[]"]
  by (simp add: method_defs example_defs phase_def Let_def)

subsection \<open>Saving a session\<close>

text \<open>
  Claim C8, as stated, fails without a current session: in the page as loaded the name is
  empty after trimming, yet \<open>saveSession\<close> shows no validation error; and with a name
  typed in, nothing is posted. The guard on the session identifier comes first.
\<close>

theorem save_without_session_counterexample:
  "trim (sessionName_value initial) = [] \<and>
   toasts (saveSession initial) = [] \<and>
   trim (sessionName_value (initial\<lparr>sessionName_value := ''notes''\<rparr>)) \<noteq> [] \<and>
   requests (saveSession (initial\<lparr>sessionName_value := ''notes''\<rparr>)) = []"
  by (simp add: initial_def saveSession_def falsy_def trim_def is_white_space_def)

text \<open>
  Claim C8, amended: for a call made while a current session identifier is set. A name
  that is empty after trimming sends no request and shows the error toast
  \<open>Please enter a session name\<close>; any other name is posted, trimmed, as the form field
  \<open>session_name\<close> to \<open>/save-session/\<close> followed by the current session identifier, with
  no toast before the response. Neither the call nor the handling of its response changes
  the phase or the current session identifier.
\<close>

theorem save_session_with_session:
  assumes "currentSessionId s = Some sessionId" and "sessionId \<noteq> []"
  shows "(if trim (sessionName_value s) = []
          then requests (saveSession s) = requests s \<and>
               pending (saveSession s) = pending s \<and>
               toasts (saveSession s) = toasts s @ [(''Please enter a session name'', ''error'')]
          else requests (saveSession s) =
                 requests s @ [POST (''/save-session/'' @ sessionId)
                                 [(''session_name'', Text (trim (sessionName_value s)))]] \<and>
               pending (saveSession s) =
                 pending s @ [(POST (''/save-session/'' @ sessionId)
                                 [(''session_name'', Text (trim (sessionName_value s)))],
                               K_saveSession)] \<and>
               toasts (saveSession s) = toasts s) \<and>
         phase (saveSession s) = phase s \<and>
         currentSessionId (saveSession s) = currentSessionId s \<and>
         phase (saveSession_k s0 r) = phase s0 \<and>
         currentSessionId (saveSession_k s0 r) = currentSessionId s0"
proof -
  have k: "phase (saveSession_k s0 r) = phase s0 \<and>
           currentSessionId (saveSession_k s0 r) = currentSessionId s0"
    by (simp add: saveSession_k_def showToast_def console_error_def phase_def
        split: fetched.splits option.splits)
  show ?thesis
    using assms k
    by (simp add: saveSession_def falsy_def session_text_def showToast_def fetch_def phase_def
        Let_def)
qed

theorem save_session_with_session_witness:
  "currentSessionId (results_s1) = Some ''s1'' \<and> ''s1'' \<noteq> [] \<and>
   trim (sessionName_value (results_s1)) = [] \<and>
   toasts (saveSession (results_s1)) =
     [(''Files uploaded successfully!'', ''success''), (''Please enter a session name'', ''error'')] \<and>
   requests (saveSession (results_s1)) =
     requests (results_s1) \<and>
   phase (saveSession (results_s1)) = Some Results"
proof -
  have s: "currentSessionId (results_s1) = Some ''s1''"
    and n: "sessionName_value (results_s1) = []"
    and t: "toasts (results_s1) = [(''Files uploaded successfully!'', ''success'')]"
    and p: "phase (results_s1) = Some Results"
    by (simp_all add: method_defs example_defs phase_def Let_def)
  have "''s1'' \<noteq> []" by simp
  from save_session_with_session [OF s this, of initial "Rejected []"] s n t p
  show ?thesis by (simp add: trim_def)
qed

subsection \<open>Who writes the current session identifier\<close>

text \<open>The methods that leave \<open>currentSessionId\<close> alone, in any state.\<close>

lemma stopStatusChecking_session:
  "currentSessionId (stopStatusChecking s) = currentSessionId s"
  by (simp add: stopStatusChecking_def split: option.splits)

lemma updateProcessingStatus_session:
  "currentSessionId (updateProcessingStatus k s) = currentSessionId s"
  by (simp add: updateProcessingStatus_def fetch_def)

lemma updateProcessingStatus_k_session:
  "currentSessionId (updateProcessingStatus_k s r) = currentSessionId s"
  by (simp add: updateProcessingStatus_k_def console_error_def displayProcessingStatus_def
      showResultsSection_def stopStatusChecking_session Let_def split: sum.splits)

lemma loadSession_k_session:
  "currentSessionId (loadSession_k s r) = currentSessionId s"
  by (simp add: loadSession_k_def console_error_def showResultsSection_def
      split: fetched.splits sum.splits)

lemma generate_k_session:
  "currentSessionId (generateSummary_k s r) = currentSessionId s"
  "currentSessionId (generateQuiz_k s q) = currentSessionId s"
  "currentSessionId (saveSession_k s u) = currentSessionId s"
  "currentSessionId (showHistory_k s h) = currentSessionId s"
  by (simp_all add: generateSummary_k_def generateQuiz_k_def saveSession_k_def showHistory_k_def
      hideLoadingOverlay_def showToast_def console_error_def displaySummary_def displayQuiz_def
      displayHistory_def split: sum.splits fetched.splits option.splits)

lemma begin_session:
  "currentSessionId (uploadFiles s) = currentSessionId s"
  "currentSessionId (generateSummary s) = currentSessionId s"
  "currentSessionId (generateQuiz s) = currentSessionId s"
  "currentSessionId (saveSession s) = currentSessionId s"
  "currentSessionId (showHistory s) = currentSessionId s"
  "currentSessionId (hideHistory s) = currentSessionId s"
  "currentSessionId (handleFileSelection files s) = currentSessionId s"
  "currentSessionId (visibilitychange hidden s) = currentSessionId s"
  "currentSessionId (settled n s) = currentSessionId s"
  "currentSessionId (loadSession_rest sessionId s) = currentSessionId s"
  by (simp_all add: uploadFiles_def generateSummary_def generateQuiz_def saveSession_def
      showHistory_def hideHistory_def handleFileSelection_def visibilitychange_def settled_def
      loadSession_rest_def fetch_def showToast_def showLoadingOverlay_def
      startStatusChecking_def stopStatusChecking_session Let_def)

text \<open>
  Claim C9. A step changes the current session identifier only when it is the click that
  calls \<open>loadSession\<close> or the settling of an upload request; these two do write it
  (\<open>loadSession\<close> its argument, a successful upload the \<open>session_id\<close> of the body). A
  poll tick, that is \<open>updateProcessingStatus\<close> and the handling of its response, whatever
  the response, leaves it as it is.
\<close>

theorem session_identifier_writers:
  assumes "step s e = Some s'"
    and "\<forall>sessionId. e \<noteq> ClickView sessionId"
    and "\<forall>n r. e \<noteq> UploadSettled n r"
  shows "currentSessionId s' = currentSessionId s \<and>
         currentSessionId (updateProcessingStatus k s0) = currentSessionId s0 \<and>
         currentSessionId (updateProcessingStatus_k s0 q) = currentSessionId s0 \<and>
         currentSessionId (loadSession sessionId s0) = Some sessionId \<and>
         currentSessionId (uploadFiles_k s0 (ok_response body)) = Some (ub_session_id body)"
proof -
  have "currentSessionId s' = currentSessionId s"
  proof (cases e)
    case (StatusSettled n r)
    with assms(1) show ?thesis
      by (auto simp add: updateProcessingStatus_k_session loadSession_k_session begin_session
          split: option.splits continuation.splits)
  next
    case (Tick t)
    with assms(1) show ?thesis
      by (auto simp add: updateProcessingStatus_session split: if_splits)
  next
    case (ClickView x)
    with assms(2) show ?thesis by simp
  next
    case (UploadSettled n r)
    with assms(3) show ?thesis by simp
  qed (use assms(1) in \<open>auto simp add: begin_session generate_k_session
         split: option.splits continuation.splits\<close>)
  moreover have "currentSessionId (loadSession sessionId s0) = Some sessionId"
    by (simp add: loadSession_def loadSession_rest_def showProcessingSection_def
        updateProcessingStatus_def hideHistory_def fetch_def Let_def)
  moreover have "currentSessionId (uploadFiles_k s0 (ok_response body)) = Some (ub_session_id body)"
    by (simp add: uploadFiles_k_def ok_response_def settle_def hideLoadingOverlay_def
        startStatusChecking_def showProcessingSection_def updateProcessingStatus_def fetch_def
        showToast_def Let_def)
  ultimately show ?thesis
    by (simp add: updateProcessingStatus_session updateProcessingStatus_k_session)
qed

theorem session_identifier_writers_witness:
  "step processing_s1 (StatusSettled 0 (ok_response (status_of ''doc.pdf'' ''completed'')))
     = Some (updateProcessingStatus_k (settled 0 processing_s1)
               (ok_response (status_of ''doc.pdf'' ''completed''))) \<and>
   (\<forall>sessionId. StatusSettled 0 (ok_response (status_of ''doc.pdf'' ''completed'')) \<noteq> ClickView sessionId) \<and>
   (\<forall>n r. StatusSettled 0 (ok_response (status_of ''doc.pdf'' ''completed'')) \<noteq> UploadSettled n r) \<and>
   currentSessionId (updateProcessingStatus_k (settled 0 processing_s1)
                       (ok_response (status_of ''doc.pdf'' ''completed''))) = Some ''s1''"
proof -
  have a: "step processing_s1 (StatusSettled 0 (ok_response (status_of ''doc.pdf'' ''completed'')))
     = Some (updateProcessingStatus_k (settled 0 processing_s1)
               (ok_response (status_of ''doc.pdf'' ''completed'')))"
    by (simp add: awaiting_def processing_s1_def)
  have b: "\<forall>sessionId. StatusSettled 0 (ok_response (status_of ''doc.pdf'' ''completed'')) \<noteq> ClickView sessionId"
    by simp
  have c: "\<forall>n r. StatusSettled 0 (ok_response (status_of ''doc.pdf'' ''completed'')) \<noteq> UploadSettled n r"
    by simp
  have d: "currentSessionId processing_s1 = Some ''s1''"
    by (simp add: processing_s1_def)
  from session_identifier_writers [OF a b c, THEN conjunct1] a b c d
  show ?thesis by simp
qed

subsection \<open>Handling a status response\<close>

lemma reports_completed_decoded:
  "reports_completed r =
     (case decoded r of None \<Rightarrow> False | Some status \<Rightarrow> sb_status status = ''completed'')"
  by (simp add: reports_completed_def decoded_def split: fetched.splits sum.splits)

text \<open>The rest of \<open>updateProcessingStatus\<close>, by what the response decodes to.\<close>

lemma updateProcessingStatus_k_decoded:
  "updateProcessingStatus_k s r =
     (case decoded r of
        None \<Rightarrow>
          console_error ''Status check error:''
            (case r of Rejected m \<Rightarrow> m
                     | Response ok _ json \<Rightarrow>
                         if ok then (case json of Inl m \<Rightarrow> m | Inr _ \<Rightarrow> []) else ''Failed to get status'') s
      | Some status \<Rightarrow>
          if sb_status status = ''completed''
          then stopStatusChecking (showResultsSection (displayProcessingStatus status s))
          else displayProcessingStatus status s)"
  by (simp add: updateProcessingStatus_k_def decoded_def settle_def Let_def
      split: fetched.splits sum.splits)

text \<open>
  A tick of the timer that is held. In the Processing phase, with a session set and the
  timer held in \<open>statusCheckInterval\<close> registered, let that timer tick and let its
  status request be answered by a 2xx response with a body. The rows are rendered from the
  body. If the body reports \<open>completed\<close>, the phase becomes Results and
  \<open>clearInterval\<close> is called once, on the held timer, which is no longer registered.
  For any other status the phase stays Processing, \<open>clearInterval\<close> is not called and
  the timer stays registered.
\<close>

lemma held_timer_tick:
  assumes "currentSessionId s = Some sessionId" and "sessionId \<noteq> []"
    and "phase s = Some Processing"
    and "statusCheckInterval s = Some t" and "t \<noteq> 0" and "t \<in> set (active_timers s)"
  shows "case run s [Tick t, StatusSettled (length (pending s)) (Response True statusText (Inr status))] of
           None \<Rightarrow> False
         | Some s' \<Rightarrow>
             requests s' = requests s @ [GET (''/status/'' @ sessionId)] \<and>
             pending s' = pending s \<and>
             processingStatus s' = map fileStatus (sb_files status) \<and>
             (if sb_status status = ''completed''
              then phase s' = Some Results \<and>
                   cleared_timers s' = cleared_timers s @ [t] \<and>
                   statusCheckInterval s' = None \<and>
                   active_timers s' = removeAll t (active_timers s) \<and>
                   t \<notin> set (active_timers s')
              else phase s' = Some Processing \<and>
                   cleared_timers s' = cleared_timers s \<and>
                   statusCheckInterval s' = Some t \<and>
                   active_timers s' = active_timers s \<and>
                   t \<in> set (active_timers s'))"
proof -
  have d: "decoded (Response True statusText (Inr status)) = Some status"
    by (simp add: decoded_def)
  have b: "step s (Tick t) =
             Some (fetch (GET (''/status/'' @ sessionId)) K_updateProcessingStatus s)"
    using assms(1,2,6) by (simp add: updateProcessingStatus_def falsy_def session_text_def)
  have p: "uploadSection_hidden s \<and> \<not> processingSection_hidden s \<and> resultsSection_hidden s"
    using assms(3) by (simp add: phase_def split: if_splits)
  show ?thesis
    unfolding run.simps b
    using assms(4,5,6) p
    by (simp add: updateProcessingStatus_k_decoded d awaiting_def settled_def fetch_def
        displayProcessingStatus_def showResultsSection_def stopStatusChecking_def phase_def)
qed

text \<open>Once the held timer is cancelled the handle is \<open>null\<close>, and a later response that
  reports \<open>completed\<close> (of a tick that was still in flight) cancels nothing more.\<close>

lemma no_held_timer_no_cancel:
  assumes "statusCheckInterval s = None"
  shows "cleared_timers (updateProcessingStatus_k s r) = cleared_timers s \<and>
         active_timers (updateProcessingStatus_k s r) = active_timers s \<and>
         statusCheckInterval (updateProcessingStatus_k s r) = None"
  using assms
  by (simp add: updateProcessingStatus_k_decoded console_error_def displayProcessingStatus_def
      showResultsSection_def stopStatusChecking_def split: option.splits)

text \<open>
  Claim C4. A poll tick whose status response reports \<open>completed\<close> should end in the
  Results phase with the polling timer cancelled once. That holds for a tick of the held
  timer (lemma \<open>held_timer_tick\<close>), not for every tick. After two submits timers 1 and 2
  are registered and timer 2 is held: a tick of timer 1 answered \<open>completed\<close> shows
  Results and cancels timer 2, timer 1 stays registered, and its next tick, again answered
  \<open>completed\<close>, cancels nothing. After the page was hidden during the upload, shown and
  hidden again, timer 1 is registered and no timer is held, in the Processing phase: a
  tick of timer 1 answered \<open>completed\<close> shows Results and \<open>clearInterval\<close> is not
  called at all.
\<close>

theorem orphan_tick_not_cancelled:
  "map_option phase
     (run initial (double_submit @
        [Tick 1, StatusSettled 2 (ok_response (status_of ''doc.pdf'' ''completed''))])) =
     Some (Some Results) \<and>
   map_option cleared_timers
     (run initial (double_submit @
        [Tick 1, StatusSettled 2 (ok_response (status_of ''doc.pdf'' ''completed''))])) = Some [2] \<and>
   map_option active_timers
     (run initial (double_submit @
        [Tick 1, StatusSettled 2 (ok_response (status_of ''doc.pdf'' ''completed''))])) = Some [1] \<and>
   map_option cleared_timers
     (run initial (double_submit @
        [Tick 1, StatusSettled 2 (ok_response (status_of ''doc.pdf'' ''completed'')),
         Tick 1, StatusSettled 2 (ok_response (status_of ''doc.pdf'' ''completed''))])) = Some [2] \<and>
   map_option active_timers
     (run initial (double_submit @
        [Tick 1, StatusSettled 2 (ok_response (status_of ''doc.pdf'' ''completed'')),
         Tick 1, StatusSettled 2 (ok_response (status_of ''doc.pdf'' ''completed''))])) = Some [1] \<and>
   map_option phase (run initial hidden_during_upload) = Some (Some Processing) \<and>
   map_option statusCheckInterval (run initial hidden_during_upload) = Some None \<and>
   map_option active_timers (run initial hidden_during_upload) = Some [1] \<and>
   map_option cleared_timers (run initial hidden_during_upload) = Some [2] \<and>
   map_option phase
     (run initial (hidden_during_upload @
        [Tick 1, StatusSettled 1 (ok_response (status_of ''doc.pdf'' ''completed''))])) =
     Some (Some Results) \<and>
   map_option cleared_timers
     (run initial (hidden_during_upload @
        [Tick 1, StatusSettled 1 (ok_response (status_of ''doc.pdf'' ''completed''))])) = Some [2] \<and>
   map_option active_timers
     (run initial (hidden_during_upload @
        [Tick 1, StatusSettled 1 (ok_response (status_of ''doc.pdf'' ''completed''))])) = Some [1]"
proof -
  have a: "run initial (double_submit @
        [Tick 1, StatusSettled 2 (ok_response (status_of ''doc.pdf'' ''completed''))]) =
     Some (processing_s1
             \<lparr>currentSessionId := Some ''s2'', statusCheckInterval := None,
              processingSection_hidden := True, resultsSection_hidden := False,
              processingStatus := [pdf_row ''doc.pdf'' ''completed''],
              toasts := [(''Files uploaded successfully!'', ''success''),
                         (''Files uploaded successfully!'', ''success'')],
              active_timers := [1], cleared_timers := [2], next_timer := 3,
              requests := [POST ''/upload'' [(''files'', FileValue doc_pdf)],
                           POST ''/upload'' [(''files'', FileValue doc_pdf)],
                           GET ''/status/s1'', GET ''/status/s2'', GET ''/status/s2''],
              pending := [(GET ''/status/s1'', K_updateProcessingStatus),
                          (GET ''/status/s2'', K_updateProcessingStatus)]\<rparr>)"
    by (simp add: method_defs example_defs Let_def)
  have b: "run initial (double_submit @
        [Tick 1, StatusSettled 2 (ok_response (status_of ''doc.pdf'' ''completed'')),
         Tick 1, StatusSettled 2 (ok_response (status_of ''doc.pdf'' ''completed''))]) =
     Some (processing_s1
             \<lparr>currentSessionId := Some ''s2'', statusCheckInterval := None,
              processingSection_hidden := True, resultsSection_hidden := False,
              processingStatus := [pdf_row ''doc.pdf'' ''completed''],
              toasts := [(''Files uploaded successfully!'', ''success''),
                         (''Files uploaded successfully!'', ''success'')],
              active_timers := [1], cleared_timers := [2], next_timer := 3,
              requests := [POST ''/upload'' [(''files'', FileValue doc_pdf)],
                           POST ''/upload'' [(''files'', FileValue doc_pdf)],
                           GET ''/status/s1'', GET ''/status/s2'', GET ''/status/s2'',
                           GET ''/status/s2''],
              pending := [(GET ''/status/s1'', K_updateProcessingStatus),
                          (GET ''/status/s2'', K_updateProcessingStatus)]\<rparr>)"
    by (simp add: method_defs example_defs Let_def)
  have c: "run initial hidden_during_upload =
     Some (processing_s1
             \<lparr>statusCheckInterval := None,
              active_timers := [1], cleared_timers := [2], next_timer := 3\<rparr>)"
    by (simp add: method_defs example_defs Let_def)
  have d: "run initial (hidden_during_upload @
        [Tick 1, StatusSettled 1 (ok_response (status_of ''doc.pdf'' ''completed''))]) =
     Some (processing_s1
             \<lparr>statusCheckInterval := None,
              processingSection_hidden := True, resultsSection_hidden := False,
              processingStatus := [pdf_row ''doc.pdf'' ''completed''],
              active_timers := [1], cleared_timers := [2], next_timer := 3,
              requests := [POST ''/upload'' [(''files'', FileValue doc_pdf)],
                           GET ''/status/s1'', GET ''/status/s1'']\<rparr>)"
    by (simp add: method_defs example_defs Let_def)
  show ?thesis
    unfolding a b c d
    by (simp add: processing_s1_def initial_def phase_def)
qed

subsection \<open>Loading a saved session\<close>

text \<open>What the two status handlers do to the fields the claims speak of, in any state.\<close>

lemma updateProcessingStatus_k_frame:
  "currentSessionId (updateProcessingStatus_k s r) = currentSessionId s"
  "historyModal_hidden (updateProcessingStatus_k s r) = historyModal_hidden s"
  "uploadSection_hidden (updateProcessingStatus_k s r) = uploadSection_hidden s"
  "next_timer (updateProcessingStatus_k s r) = next_timer s"
  "requests (updateProcessingStatus_k s r) = requests s"
  "pending (updateProcessingStatus_k s r) = pending s"
  "toasts (updateProcessingStatus_k s r) = toasts s"
  by (simp_all add: updateProcessingStatus_k_decoded console_error_def displayProcessingStatus_def
      showResultsSection_def stopStatusChecking_def split: option.splits)

lemma updateProcessingStatus_k_display:
  "processingStatus (updateProcessingStatus_k s r) =
     (case decoded r of None \<Rightarrow> processingStatus s
                      | Some status \<Rightarrow> map fileStatus (sb_files status))"
  "processingSection_hidden (updateProcessingStatus_k s r) =
     (if reports_completed r then True else processingSection_hidden s)"
  "resultsSection_hidden (updateProcessingStatus_k s r) =
     (if reports_completed r then False else resultsSection_hidden s)"
  by (simp_all add: updateProcessingStatus_k_decoded reports_completed_decoded console_error_def
      displayProcessingStatus_def showResultsSection_def stopStatusChecking_def
      split: option.splits)

lemma updateProcessingStatus_k_timers:
  "set (active_timers (updateProcessingStatus_k s r)) \<subseteq> set (active_timers s)"
  "statusCheckInterval (updateProcessingStatus_k s r) = statusCheckInterval s \<or>
   statusCheckInterval (updateProcessingStatus_k s r) = None"
  by (auto simp add: updateProcessingStatus_k_decoded console_error_def
      displayProcessingStatus_def showResultsSection_def stopStatusChecking_def
      split: option.splits)

lemma loadSession_k_frame:
  "currentSessionId (loadSession_k s r) = currentSessionId s"
  "historyModal_hidden (loadSession_k s r) = historyModal_hidden s"
  "uploadSection_hidden (loadSession_k s r) = uploadSection_hidden s"
  "next_timer (loadSession_k s r) = next_timer s"
  "active_timers (loadSession_k s r) = active_timers s"
  "statusCheckInterval (loadSession_k s r) = statusCheckInterval s"
  "requests (loadSession_k s r) = requests s"
  "pending (loadSession_k s r) = pending s"
  "toasts (loadSession_k s r) = toasts s"
  "processingStatus (loadSession_k s r) = processingStatus s"
  "processingSection_hidden (loadSession_k s r) =
     (if reports_completed r then True else processingSection_hidden s)"
  "resultsSection_hidden (loadSession_k s r) =
     (if reports_completed r then False else resultsSection_hidden s)"
  by (simp_all add: loadSession_k_def reports_completed_def console_error_def
      showResultsSection_def split: fetched.splits sum.splits)



lemma loadSession_rest_frame:
  "currentSessionId (loadSession_rest i s) = currentSessionId s"
  "historyModal_hidden (loadSession_rest i s) = historyModal_hidden s"
  "uploadSection_hidden (loadSession_rest i s) = uploadSection_hidden s"
  "processingSection_hidden (loadSession_rest i s) = processingSection_hidden s"
  "resultsSection_hidden (loadSession_rest i s) = resultsSection_hidden s"
  "processingStatus (loadSession_rest i s) = processingStatus s"
  "next_timer (loadSession_rest i s) = next_timer s"
  "active_timers (loadSession_rest i s) = active_timers s"
  "statusCheckInterval (loadSession_rest i s) = statusCheckInterval s"
  "requests (loadSession_rest i s) = requests s @ [GET (''/status/'' @ i)]"
  "toasts (loadSession_rest i s) = toasts s"
  by (simp_all add: loadSession_rest_def fetch_def)









subsection \<open>Status responses in any order\<close>

text \<open>
  The first status request of \<open>loadSession\<close> is not awaited, so its response may be
  handled before, between or after the other two. Whatever the order, no status handler
  brings the processing section back once the results section is shown, none starts a
  timer, and none writes the current session identifier.
\<close>

lemma status_handlers_keep_results:
  assumes "processingSection_hidden s" and "\<not> resultsSection_hidden s"
  shows "processingSection_hidden (updateProcessingStatus_k s r) \<and>
         \<not> resultsSection_hidden (updateProcessingStatus_k s r) \<and>
         processingSection_hidden (loadSession_k s r) \<and>
         \<not> resultsSection_hidden (loadSession_k s r) \<and>
         processingSection_hidden (loadSession_rest i s) \<and>
         \<not> resultsSection_hidden (loadSession_rest i s)"
  using assms
  by (simp add: updateProcessingStatus_k_display loadSession_k_frame loadSession_rest_frame)

lemma status_handlers_start_no_timer:
  "next_timer (updateProcessingStatus_k s r) = next_timer s \<and>
   next_timer (loadSession_k s r) = next_timer s \<and>
   next_timer (loadSession_rest i s) = next_timer s \<and>
   set (active_timers (updateProcessingStatus_k s r)) \<subseteq> set (active_timers s) \<and>
   active_timers (loadSession_k s r) = active_timers s \<and>
   active_timers (loadSession_rest i s) = active_timers s"
  by (simp add: updateProcessingStatus_k_frame updateProcessingStatus_k_timers
      loadSession_k_frame loadSession_rest_frame)

subsection \<open>Starting the polling timer\<close>

text \<open>
  Claim C1. \<open>startStatusChecking\<close> registers a new interval timer and stores its
  identifier; it never calls \<open>clearInterval\<close>, so every timer registered before stays
  registered. After two submits whose uploads both succeed, timers 1 and 2 are both
  registered and only timer 2 is held in \<open>statusCheckInterval\<close>. When the status of the
  second session then reports \<open>completed\<close>, timer 2 is cancelled and timer 1 goes on
  ticking in the Results phase. The same happens when the page is hidden while the upload
  is in flight and shown again after the response.
\<close>

theorem double_submit_two_timers:
  "active_timers (startStatusChecking s) = active_timers s @ [next_timer s] \<and>
   cleared_timers (startStatusChecking s) = cleared_timers s \<and>
   map_option active_timers (run initial double_submit) = Some [1, 2] \<and>
   map_option statusCheckInterval (run initial double_submit) = Some (Some 2) \<and>
   map_option cleared_timers (run initial double_submit) = Some [] \<and>
   map_option active_timers
     (run initial (double_submit @
        [StatusSettled 1 (ok_response (status_of ''doc.pdf'' ''completed''))])) = Some [1] \<and>
   map_option phase
     (run initial (double_submit @
        [StatusSettled 1 (ok_response (status_of ''doc.pdf'' ''completed''))])) = Some (Some Results) \<and>
   map_option active_timers
     (run initial [SelectFiles [doc_pdf], Submit, VisibilityChange True,
                   UploadSettled 0 (uploaded ''s1''), VisibilityChange False]) = Some [1, 2]"
proof -
  have a: "active_timers (startStatusChecking s) = active_timers s @ [next_timer s] \<and>
           cleared_timers (startStatusChecking s) = cleared_timers s"
    by (simp add: startStatusChecking_def)
  have b: "run initial double_submit =
     Some (processing_s1
             \<lparr>currentSessionId := Some ''s2'', statusCheckInterval := Some 2,
              toasts := [(''Files uploaded successfully!'', ''success''),
                         (''Files uploaded successfully!'', ''success'')],
              active_timers := [1, 2], next_timer := 3,
              requests := [POST ''/upload'' [(''files'', FileValue doc_pdf)],
                           POST ''/upload'' [(''files'', FileValue doc_pdf)],
                           GET ''/status/s1'', GET ''/status/s2''],
              pending := [(GET ''/status/s1'', K_updateProcessingStatus),
                          (GET ''/status/s2'', K_updateProcessingStatus)]\<rparr>)"
    by (simp add: method_defs example_defs Let_def)
  have c: "map_option active_timers
     (run initial (double_submit @
        [StatusSettled 1 (ok_response (status_of ''doc.pdf'' ''completed''))])) = Some [1] \<and>
   map_option phase
     (run initial (double_submit @
        [StatusSettled 1 (ok_response (status_of ''doc.pdf'' ''completed''))])) = Some (Some Results)"
    by (simp add: method_defs example_defs phase_def Let_def)
  have d: "map_option active_timers
     (run initial [SelectFiles [doc_pdf], Submit, VisibilityChange True,
                   UploadSettled 0 (uploaded ''s1''), VisibilityChange False]) = Some [1, 2]"
    by (simp add: method_defs example_defs Let_def)
  have e: "map_option active_timers (run initial double_submit) = Some [1, 2] \<and>
           map_option statusCheckInterval (run initial double_submit) = Some (Some 2) \<and>
           map_option cleared_timers (run initial double_submit) = Some []"
    unfolding b by (simp add: processing_s1_def initial_def)
  from a e c d show ?thesis by blast
qed

subsection \<open>A status response that arrives after the session was replaced\<close>

text \<open>
  Claim C2, as stated, fails. Session \<open>s1\<close> is uploaded and its first status request is
  in flight; the saved session \<open>s2\<close> is loaded and its status (\<open>notes.pdf\<close>,
  \<open>processing\<close>) is displayed. The response for \<open>s1\<close> then arrives with
  \<open>completed\<close>: the row of \<open>s2\<close> is replaced by the row of \<open>s1\<close> and the phase
  becomes Results, while the current session is still \<open>s2\<close>.
\<close>

theorem stale_response_counterexample:
  "run initial load_s2 = Some loaded_s2 \<and>
   currentSessionId loaded_s2 = Some ''s2'' \<and>
   pending loaded_s2 ! 0 = (GET ''/status/s1'', K_updateProcessingStatus) \<and>
   processingStatus loaded_s2 =
     [\<lparr>row_filename = ''notes.pdf'', row_file_type = [80, 68, 70],
       row_badge_class = ''processing'', row_badge_text = ''processing''\<rparr>] \<and>
   phase loaded_s2 = Some Processing \<and>
   map_option processingStatus
     (step loaded_s2 (StatusSettled 0 (ok_response (status_of ''doc.pdf'' ''completed'')))) =
     Some [\<lparr>row_filename = ''doc.pdf'', row_file_type = [80, 68, 70],
            row_badge_class = ''completed'', row_badge_text = ''completed''\<rparr>] \<and>
   map_option phase
     (step loaded_s2 (StatusSettled 0 (ok_response (status_of ''doc.pdf'' ''completed'')))) =
     Some (Some Results) \<and>
   map_option currentSessionId
     (step loaded_s2 (StatusSettled 0 (ok_response (status_of ''doc.pdf'' ''completed'')))) =
     Some (Some ''s2'')"
proof -
  have a: "currentSessionId loaded_s2 = Some ''s2'' \<and>
   pending loaded_s2 ! 0 = (GET ''/status/s1'', K_updateProcessingStatus) \<and>
   processingStatus loaded_s2 =
     [\<lparr>row_filename = ''notes.pdf'', row_file_type = [80, 68, 70],
       row_badge_class = ''processing'', row_badge_text = ''processing''\<rparr>] \<and>
   phase loaded_s2 = Some Processing"
    by (simp add: loaded_s2_def processing_s1_def initial_def phase_def pdf_row_def)
  have b: "map_option processingStatus
     (step loaded_s2 (StatusSettled 0 (ok_response (status_of ''doc.pdf'' ''completed'')))) =
     Some [\<lparr>row_filename = ''doc.pdf'', row_file_type = [80, 68, 70],
            row_badge_class = ''completed'', row_badge_text = ''completed''\<rparr>] \<and>
   map_option phase
     (step loaded_s2 (StatusSettled 0 (ok_response (status_of ''doc.pdf'' ''completed'')))) =
     Some (Some Results) \<and>
   map_option currentSessionId
     (step loaded_s2 (StatusSettled 0 (ok_response (status_of ''doc.pdf'' ''completed'')))) =
     Some (Some ''s2'')"
    by (simp add: method_defs example_defs phase_def Let_def)
  from loaded_s2_reached a b show ?thesis by blast
qed

text \<open>What \<open>loadSession\<close> leaves alone, for any argument, and what it appends to the
  requests in flight.\<close>

lemma loadSession_frame:
  "toasts (loadSession i s) = toasts s"
  "processingStatus (loadSession i s) = processingStatus s"
  "uploadSection_hidden (loadSession i s) = True"
  "resultsSection_hidden (loadSession i s) = resultsSection_hidden s"
  "processingSection_hidden (loadSession i s) = False"
  "active_timers (loadSession i s) = active_timers s"
  "cleared_timers (loadSession i s) = cleared_timers s"
  "statusCheckInterval (loadSession i s) = statusCheckInterval s"
  "currentSessionId (loadSession i s) = Some i"
  "take (length (pending s)) (pending (loadSession i s)) = pending s"
  "length (pending s) < length (pending (loadSession i s))"
  by (simp_all add: loadSession_def loadSession_rest_def showProcessingSection_def
      updateProcessingStatus_def hideHistory_def fetch_def Let_def)

text \<open>
  No method of the application removes \<open>hidden\<close> from the upload section: once hidden
  it stays hidden along every run, in particular after any \<open>loadSession\<close>.
\<close>

lemma upload_hidden_kept:
  "uploadSection_hidden s \<Longrightarrow> uploadSection_hidden (handleFileSelection files s)"
  "uploadSection_hidden s \<Longrightarrow> uploadSection_hidden (uploadFiles s)"
  "uploadSection_hidden s \<Longrightarrow> uploadSection_hidden (generateSummary s)"
  "uploadSection_hidden s \<Longrightarrow> uploadSection_hidden (generateQuiz s)"
  "uploadSection_hidden s \<Longrightarrow> uploadSection_hidden (saveSession s)"
  "uploadSection_hidden s \<Longrightarrow> uploadSection_hidden (showHistory s)"
  "uploadSection_hidden s \<Longrightarrow> uploadSection_hidden (hideHistory s)"
  "uploadSection_hidden s \<Longrightarrow> uploadSection_hidden (updateProcessingStatus k s)"
  "uploadSection_hidden s \<Longrightarrow> uploadSection_hidden (visibilitychange hidden s)"
  "uploadSection_hidden s \<Longrightarrow> uploadSection_hidden (settled n s)"
  "uploadSection_hidden s \<Longrightarrow> uploadSection_hidden (loadSession_rest i s)"
  "uploadSection_hidden (loadSession i s)"
  by (simp_all add: handleFileSelection_def uploadFiles_def generateSummary_def generateQuiz_def
      saveSession_def showHistory_def hideHistory_def updateProcessingStatus_def
      visibilitychange_def settled_def loadSession_rest_def loadSession_def
      showProcessingSection_def fetch_def showToast_def showLoadingOverlay_def
      startStatusChecking_def stopStatusChecking_def Let_def split: option.splits)

lemma upload_hidden_kept_k:
  "uploadSection_hidden s \<Longrightarrow> uploadSection_hidden (updateProcessingStatus_k s r)"
  "uploadSection_hidden s \<Longrightarrow> uploadSection_hidden (loadSession_k s r)"
  "uploadSection_hidden s \<Longrightarrow> uploadSection_hidden (uploadFiles_k s u)"
  "uploadSection_hidden s \<Longrightarrow> uploadSection_hidden (generateSummary_k s c)"
  "uploadSection_hidden s \<Longrightarrow> uploadSection_hidden (generateQuiz_k s q)"
  "uploadSection_hidden s \<Longrightarrow> uploadSection_hidden (saveSession_k s v)"
  "uploadSection_hidden s \<Longrightarrow> uploadSection_hidden (showHistory_k s h)"
  by (simp_all add: updateProcessingStatus_k_frame loadSession_k_frame uploadFiles_k_def
      generateSummary_k_def generateQuiz_k_def saveSession_k_def showHistory_k_def
      showProcessingSection_def updateProcessingStatus_def startStatusChecking_def fetch_def
      hideLoadingOverlay_def showToast_def console_error_def displaySummary_def displayQuiz_def
      displayHistory_def Let_def split: sum.splits fetched.splits option.splits)

lemma step_upload_hidden:
  assumes "uploadSection_hidden s" and "step s e = Some s'"
  shows "uploadSection_hidden s'"
  using assms
  by (cases e)
    (auto simp add: upload_hidden_kept upload_hidden_kept_k
      split: option.splits continuation.splits if_splits)

lemma run_upload_hidden:
  "uploadSection_hidden s \<Longrightarrow> run s es = Some s' \<Longrightarrow> uploadSection_hidden s'"
proof (induction es arbitrary: s)
  case Nil
  then show ?case by simp
next
  case (Cons e es)
  then show ?case
    by (auto split: option.splits dest: step_upload_hidden)
qed

lemma upload_hidden_after_loadSession:
  assumes "run s0 (ClickView i # es) = Some s"
  shows "uploadSection_hidden s"
  using assms run_upload_hidden [of "loadSession i s0" es s]
  by (simp add: upload_hidden_kept)

text \<open>
  Claim C2, amended. Let \<open>loadSession\<close> have replaced the current session with B, let B
  still be current after whatever events followed, and let a status request for session A
  be in flight: one issued by \<open>updateProcessingStatus\<close> (from a poll tick or from
  \<open>showProcessingSection\<close>), the one awaited by \<open>loadSession(A)\<close>, or the final one of
  \<open>loadSession(A)\<close>. Let the response for A now be handled. The current session
  identifier stays B and no toast is shown. A response without a body (rejected, not
  \<open>ok\<close>, or not decodable) changes neither the rows displayed, nor the phase, nor the
  timers. A response with a body is not discarded. For the first two kinds of request its
  files replace the rows displayed and, if it reports \<open>completed\<close>, the phase becomes
  Results and the held timer, if any, is cancelled; the awaited one then also sends the
  final status request of \<open>loadSession(A)\<close>. For the final request of
  \<open>loadSession(A)\<close> the rows are left as they are and, if the body reports
  \<open>completed\<close>, the phase becomes Results and no timer is cancelled. For any other
  status the phase and the timers are left as they are.
\<close>

theorem stale_status_response:
  assumes "run s0 (ClickView sessionB # es) = Some s"
    and "currentSessionId s = Some sessionB"
    and "n < length (pending s)"
    and "pending s ! n = (GET (''/status/'' @ sessionA), k)"
    and "k = K_updateProcessingStatus \<or> k = K_loadSession_awaited sessionA \<or>
         k = K_loadSession_final sessionA"
  shows "case step s (StatusSettled n r) of
           None \<Rightarrow> False
         | Some s' \<Rightarrow>
             currentSessionId s' = Some sessionB \<and>
             toasts s' = toasts s \<and>
             requests s' =
               requests s @
               (if k = K_loadSession_awaited sessionA then [GET (''/status/'' @ sessionA)] else []) \<and>
             (case decoded r of
                None \<Rightarrow>
                  processingStatus s' = processingStatus s \<and>
                  phase s' = phase s \<and>
                  active_timers s' = active_timers s \<and>
                  cleared_timers s' = cleared_timers s \<and>
                  statusCheckInterval s' = statusCheckInterval s
              | Some status \<Rightarrow>
                  processingStatus s' =
                    (if k = K_loadSession_final sessionA then processingStatus s
                     else map (\<lambda>f. \<lparr>row_filename = fs_filename f,
                                      row_file_type = toUpperCase (fs_file_type f),
                                      row_badge_class = getStatusClass (fs_status f),
                                      row_badge_text = fs_status f\<rparr>) (sb_files status)) \<and>
                  (if sb_status status = ''completed''
                   then phase s' = Some Results \<and>
                        (if k = K_loadSession_final sessionA
                         then active_timers s' = active_timers s \<and>
                              cleared_timers s' = cleared_timers s \<and>
                              statusCheckInterval s' = statusCheckInterval s
                         else (case statusCheckInterval s of
                                 None \<Rightarrow>
                                   active_timers s' = active_timers s \<and>
                                   cleared_timers s' = cleared_timers s \<and>
                                   statusCheckInterval s' = None
                               | Some t \<Rightarrow>
                                   if t = 0
                                   then active_timers s' = active_timers s \<and>
                                        cleared_timers s' = cleared_timers s \<and>
                                        statusCheckInterval s' = Some 0
                                   else active_timers s' = removeAll t (active_timers s) \<and>
                                        cleared_timers s' = cleared_timers s @ [t] \<and>
                                        statusCheckInterval s' = None))
                   else phase s' = phase s \<and>
                        active_timers s' = active_timers s \<and>
                        cleared_timers s' = cleared_timers s \<and>
                        statusCheckInterval s' = statusCheckInterval s))"
proof -
  define s2 where "s2 = settled n s"
  have u: "uploadSection_hidden s"
    using assms(1) by (rule upload_hidden_after_loadSession)
  have a: "awaiting n s = Some k"
    using assms(3,4) by (simp add: awaiting_def)
  have f: "toasts s2 = toasts s" "processingStatus s2 = processingStatus s"
    "uploadSection_hidden s2 = True"
    "resultsSection_hidden s2 = resultsSection_hidden s"
    "processingSection_hidden s2 = processingSection_hidden s"
    "active_timers s2 = active_timers s"
    "cleared_timers s2 = cleared_timers s"
    "statusCheckInterval s2 = statusCheckInterval s"
    "currentSessionId s2 = Some sessionB"
    "requests s2 = requests s"
    using u assms(2) by (simp_all add: s2_def settled_def)
  have ph: "phase s =
      (if \<not> processingSection_hidden s \<and> resultsSection_hidden s then Some Processing
       else if processingSection_hidden s \<and> \<not> resultsSection_hidden s then Some Results
       else None)"
    using u by (simp add: phase_def)
  from assms(5) show ?thesis
  proof (elim disjE)
    assume k: "k = K_updateProcessingStatus"
    have st: "step s (StatusSettled n r) = Some (updateProcessingStatus_k s2 r)"
      by (simp add: a k s2_def)
    show ?thesis
      unfolding st option.case ph
      using f
      by (simp add: k updateProcessingStatus_k_decoded console_error_def
          displayProcessingStatus_def fileStatus_def showResultsSection_def
          stopStatusChecking_def phase_def split: option.splits)
  next
    assume k: "k = K_loadSession_awaited sessionA"
    have st: "step s (StatusSettled n r) =
                Some (loadSession_rest sessionA (updateProcessingStatus_k s2 r))"
      by (simp add: a k s2_def)
    show ?thesis
      unfolding st option.case ph
      using f
      by (simp add: k updateProcessingStatus_k_decoded console_error_def
          displayProcessingStatus_def fileStatus_def showResultsSection_def
          stopStatusChecking_def loadSession_rest_def fetch_def phase_def split: option.splits)
  next
    assume k: "k = K_loadSession_final sessionA"
    have st: "step s (StatusSettled n r) = Some (loadSession_k s2 r)"
      by (simp add: a k s2_def)
    show ?thesis
      unfolding st option.case ph
      using f
      by (simp add: k loadSession_k_def decoded_def console_error_def showResultsSection_def
          phase_def split: fetched.splits sum.splits)
  qed
qed

theorem stale_status_response_witness:
  "run final_s2 (ClickView ''s3'' # []) = Some (loadSession ''s3'' final_s2) \<and>
   currentSessionId (loadSession ''s3'' final_s2) = Some ''s3'' \<and>
   1 < length (pending (loadSession ''s3'' final_s2)) \<and>
   pending (loadSession ''s3'' final_s2) ! 1 =
     (GET (''/status/'' @ ''s2''), K_loadSession_final ''s2'') \<and>
   (case step (loadSession ''s3'' final_s2)
           (StatusSettled 1 (ok_response (status_of ''notes.pdf'' ''completed''))) of
      None \<Rightarrow> False
    | Some s' \<Rightarrow>
        currentSessionId s' = Some ''s3'' \<and>
        toasts s' = [(''Files uploaded successfully!'', ''success'')] \<and>
        processingStatus s' =
          [\<lparr>row_filename = ''notes.pdf'', row_file_type = [80, 68, 70],
            row_badge_class = ''processing'', row_badge_text = ''processing''\<rparr>] \<and>
        phase s' = Some Results \<and>
        active_timers s' = [1] \<and> cleared_timers s' = [] \<and> statusCheckInterval s' = Some 1) \<and>
   run final_s2 (ClickView ''s3'' # [Tick 1]) =
     Some (updateProcessingStatus K_updateProcessingStatus (loadSession ''s3'' final_s2)) \<and>
   pending (updateProcessingStatus K_updateProcessingStatus (loadSession ''s3'' final_s2)) ! 0 =
     (GET (''/status/'' @ ''s1''), K_updateProcessingStatus) \<and>
   (case step (updateProcessingStatus K_updateProcessingStatus (loadSession ''s3'' final_s2))
           (StatusSettled 0 (ok_response (status_of ''doc.pdf'' ''completed''))) of
      None \<Rightarrow> False
    | Some s' \<Rightarrow>
        currentSessionId s' = Some ''s3'' \<and>
        processingStatus s' =
          [\<lparr>row_filename = ''doc.pdf'', row_file_type = [80, 68, 70],
            row_badge_class = ''completed'', row_badge_text = ''completed''\<rparr>] \<and>
        phase s' = Some Results \<and>
        active_timers s' = [] \<and> cleared_timers s' = [1] \<and> statusCheckInterval s' = None) \<and>
   run loaded_s2 (ClickView ''s3'' # []) = Some (loadSession ''s3'' loaded_s2) \<and>
   pending (loadSession ''s3'' loaded_s2) ! 1 =
     (GET (''/status/'' @ ''s2''), K_loadSession_awaited ''s2'') \<and>
   (case step (loadSession ''s3'' loaded_s2) (StatusSettled 1 (Rejected ''Failed to fetch'')) of
      None \<Rightarrow> False
    | Some s' \<Rightarrow>
        currentSessionId s' = Some ''s3'' \<and>
        processingStatus s' =
          [\<lparr>row_filename = ''notes.pdf'', row_file_type = [80, 68, 70],
            row_badge_class = ''processing'', row_badge_text = ''processing''\<rparr>] \<and>
        phase s' = Some Processing \<and>
        active_timers s' = [1] \<and> cleared_timers s' = [] \<and> statusCheckInterval s' = Some 1 \<and>
        requests s' = requests (loadSession ''s3'' loaded_s2) @ [GET ''/status/s2''])"
  using stale_status_response
          [where s0 = final_s2 and es = "[]" and s = "loadSession ''s3'' final_s2"
             and n = 1 and sessionA = "''s2''" and sessionB = "''s3''"
             and k = "K_loadSession_final ''s2''"
             and r = "ok_response (status_of ''notes.pdf'' ''completed'')"]
        stale_status_response
          [where s0 = final_s2 and es = "[Tick 1]"
             and s = "updateProcessingStatus K_updateProcessingStatus (loadSession ''s3'' final_s2)"
             and n = 0 and sessionA = "''s1''" and sessionB = "''s3''"
             and k = K_updateProcessingStatus
             and r = "ok_response (status_of ''doc.pdf'' ''completed'')"]
        stale_status_response
          [where s0 = loaded_s2 and es = "[]" and s = "loadSession ''s3'' loaded_s2"
             and n = 1 and sessionA = "''s2''" and sessionB = "''s3''"
             and k = "K_loadSession_awaited ''s2''"
             and r = "Rejected ''Failed to fetch''"]
  by (simp add: method_defs example_defs decoded_def phase_def Let_def)

subsection \<open>Timer identifiers along a run\<close>

text \<open>
  Only \<open>startStatusChecking\<close> and \<open>stopStatusChecking\<close> touch the timers. In every state
  a run reaches from the page as loaded, the held identifier is a positive number, so the
  test \<open>if (this.statusCheckInterval)\<close> succeeds exactly when a timer is held.
\<close>

lemma startStatusChecking_in_order:
  "timers_in_order s \<Longrightarrow> timers_in_order (startStatusChecking s)"
  by (auto simp add: timers_in_order_def startStatusChecking_def list_all_iff split: option.splits)

lemma stopStatusChecking_in_order:
  "timers_in_order s \<Longrightarrow> timers_in_order (stopStatusChecking s)"
  by (auto simp add: timers_in_order_def stopStatusChecking_def list_all_iff distinct_removeAll
      split: option.splits)

lemma timers_in_order_cong:
  assumes "timers_in_order s"
    and "next_timer s' = next_timer s" and "active_timers s' = active_timers s"
    and "statusCheckInterval s' = statusCheckInterval s"
  shows "timers_in_order s'"
  using assms by (simp add: timers_in_order_def split: option.splits)

lemma updateProcessingStatus_k_in_order:
  "timers_in_order s \<Longrightarrow> timers_in_order (updateProcessingStatus_k s r)"
proof -
  assume a: "timers_in_order s"
  have d: "timers_in_order (displayProcessingStatus b s)" for b
    using a by (rule timers_in_order_cong) (simp_all add: displayProcessingStatus_def)
  have e: "timers_in_order (showResultsSection (displayProcessingStatus b s))" for b
    using d [of b] by (rule timers_in_order_cong) (simp_all add: showResultsSection_def)
  have c: "timers_in_order (console_error l m s)" for l m
    using a by (rule timers_in_order_cong) (simp_all add: console_error_def)
  show ?thesis
    by (simp add: updateProcessingStatus_k_decoded c d stopStatusChecking_in_order [OF e]
        split: option.splits)
qed

lemmas begin_defs =
  handleFileSelection_def uploadFiles_def generateSummary_def generateQuiz_def saveSession_def
  showHistory_def hideHistory_def fetch_def showToast_def showLoadingOverlay_def

lemma step_in_order:
  assumes "timers_in_order s" and "step s e = Some s'"
  shows "timers_in_order s'"
proof (cases e)
  case (UploadSettled n r)
  have f: "timers_in_order (settled n s)"
    using assms(1) by (rule timers_in_order_cong) (simp_all add: settled_def)
  have "timers_in_order (uploadFiles_k (settled n s) r)"
  proof (cases "settle (\<lambda>statusText. ''Upload failed: '' @ statusText) r")
    case (Inl m)
    have eq: "uploadFiles_k (settled n s) r =
                hideLoadingOverlay
                  (showToast (''Upload failed: '' @ m) ''error''
                     (console_error ''Upload error:'' m (settled n s)))"
      by (simp only: uploadFiles_k_def Inl sum.case)
    show ?thesis
      using f by (rule timers_in_order_cong)
        (simp_all add: eq hideLoadingOverlay_def showToast_def console_error_def)
  next
    case (Inr result)
    have "timers_in_order
            (showProcessingSection
               (showToast ''Files uploaded successfully!'' ''success''
                  ((settled n s)\<lparr>currentSessionId := Some (ub_session_id result)\<rparr>)))"
      using f by (rule timers_in_order_cong)
        (simp_all add: showProcessingSection_def updateProcessingStatus_def fetch_def showToast_def)
    from startStatusChecking_in_order [OF this]
    have st: "timers_in_order
            (startStatusChecking (showProcessingSection
               (showToast ''Files uploaded successfully!'' ''success''
                  ((settled n s)\<lparr>currentSessionId := Some (ub_session_id result)\<rparr>))))" .
    have eq: "uploadFiles_k (settled n s) r =
                hideLoadingOverlay
                  ((startStatusChecking (showProcessingSection
                      (showToast ''Files uploaded successfully!'' ''success''
                         ((settled n s)\<lparr>currentSessionId := Some (ub_session_id result)\<rparr>))))
                   \<lparr>fileInput_files := [], fileList_hidden := True, uploadBtn_disabled := True\<rparr>)"
      by (simp only: uploadFiles_k_def Inr sum.case Let_def)
    show ?thesis
      using st by (rule timers_in_order_cong) (simp_all add: eq hideLoadingOverlay_def)
  qed
  with assms(2) UploadSettled show ?thesis
    by (auto split: option.splits continuation.splits)
next
  case (StatusSettled n r)
  have f: "timers_in_order (settled n s)"
    using assms(1) by (rule timers_in_order_cong) (simp_all add: settled_def)
  have g: "timers_in_order (loadSession_rest i (updateProcessingStatus_k (settled n s) r))" for i
    using updateProcessingStatus_k_in_order [OF f, of r]
    by (rule timers_in_order_cong) (simp_all add: loadSession_rest_frame)
  have h: "timers_in_order (loadSession_k (settled n s) r)"
    using f by (rule timers_in_order_cong) (simp_all add: loadSession_k_frame)
  from assms(2) StatusSettled updateProcessingStatus_k_in_order [OF f, of r] g h show ?thesis
    by (auto split: option.splits continuation.splits)
next
  case (VisibilityChange hidden)
  with assms show ?thesis
    by (auto simp add: visibilitychange_def startStatusChecking_in_order
        stopStatusChecking_in_order)
next
  case (Tick t)
  have "timers_in_order (updateProcessingStatus K_updateProcessingStatus s)"
    using assms(1) by (rule timers_in_order_cong) (simp_all add: updateProcessingStatus_def fetch_def)
  with assms(2) Tick show ?thesis by (auto split: if_splits)
next
  case (ClickView i)
  have "timers_in_order (loadSession i s)"
    using assms(1) by (rule timers_in_order_cong)
      (simp_all add: loadSession_def loadSession_rest_def showProcessingSection_def
         updateProcessingStatus_def hideHistory_def fetch_def Let_def)
  with assms(2) ClickView show ?thesis by simp
next
  case (SummarySettled n r)
  have "timers_in_order (generateSummary_k (settled n s) r)"
    using assms(1) by (rule timers_in_order_cong)
      (simp_all add: generateSummary_k_def settled_def hideLoadingOverlay_def showToast_def
         console_error_def displaySummary_def split: sum.splits)
  with assms(2) SummarySettled show ?thesis
    by (auto split: option.splits continuation.splits)
next
  case (QuizSettled n r)
  have "timers_in_order (generateQuiz_k (settled n s) r)"
    using assms(1) by (rule timers_in_order_cong)
      (simp_all add: generateQuiz_k_def settled_def hideLoadingOverlay_def showToast_def
         console_error_def displayQuiz_def split: sum.splits)
  with assms(2) QuizSettled show ?thesis
    by (auto split: option.splits continuation.splits)
next
  case (SaveSettled n r)
  have "timers_in_order (saveSession_k (settled n s) r)"
    using assms(1) by (rule timers_in_order_cong)
      (simp_all add: saveSession_k_def settled_def showToast_def console_error_def
         split: fetched.splits option.splits)
  with assms(2) SaveSettled show ?thesis
    by (auto split: option.splits continuation.splits)
next
  case (HistorySettled n r)
  have "timers_in_order (showHistory_k (settled n s) r)"
    using assms(1) by (rule timers_in_order_cong)
      (simp_all add: showHistory_k_def settled_def showToast_def console_error_def
         displayHistory_def split: sum.splits)
  with assms(2) HistorySettled show ?thesis
    by (auto split: option.splits continuation.splits)
next
  case (SelectFiles files)
  have "timers_in_order (handleFileSelection files (s\<lparr>fileInput_files := files\<rparr>))"
    using assms(1) by (rule timers_in_order_cong) (simp_all add: begin_defs Let_def)
  with assms(2) SelectFiles show ?thesis by simp
next
  case (DropFiles files)
  have "timers_in_order (handleFileSelection files s)"
    using assms(1) by (rule timers_in_order_cong) (simp_all add: begin_defs Let_def)
  with assms(2) DropFiles show ?thesis by simp
next
  case Submit
  have "timers_in_order (uploadFiles s)"
    using assms(1) by (rule timers_in_order_cong) (simp_all add: begin_defs Let_def)
  with assms(2) Submit show ?thesis by simp
next
  case ClickGenerateSummary
  have "timers_in_order (generateSummary s)"
    using assms(1) by (rule timers_in_order_cong) (simp_all add: begin_defs Let_def)
  with assms(2) ClickGenerateSummary show ?thesis by simp
next
  case ClickGenerateQuiz
  have "timers_in_order (generateQuiz s)"
    using assms(1) by (rule timers_in_order_cong) (simp_all add: begin_defs Let_def)
  with assms(2) ClickGenerateQuiz show ?thesis by simp
next
  case ClickSaveSession
  have "timers_in_order (saveSession s)"
    using assms(1) by (rule timers_in_order_cong) (simp_all add: begin_defs Let_def)
  with assms(2) ClickSaveSession show ?thesis by simp
next
  case ClickHistory
  have "timers_in_order (showHistory s)"
    using assms(1) by (rule timers_in_order_cong) (simp_all add: begin_defs Let_def)
  with assms(2) ClickHistory show ?thesis by simp
next
  case ClickCloseHistory
  have "timers_in_order (hideHistory s)"
    using assms(1) by (rule timers_in_order_cong) (simp_all add: begin_defs Let_def)
  with assms(2) ClickCloseHistory show ?thesis by simp
next
  case (InputSessionName v)
  have "timers_in_order (s\<lparr>sessionName_value := v\<rparr>)"
    using assms(1) by (rule timers_in_order_cong) (simp_all add: begin_defs Let_def)
  with assms(2) InputSessionName show ?thesis by simp
next
  case (SelectSummaryType v)
  have "timers_in_order (s\<lparr>summaryType_value := v\<rparr>)"
    using assms(1) by (rule timers_in_order_cong) (simp_all add: begin_defs Let_def)
  with assms(2) SelectSummaryType show ?thesis by simp
next
  case (InputQuestionCount v)
  have "timers_in_order (s\<lparr>questionCount_value := v\<rparr>)"
    using assms(1) by (rule timers_in_order_cong) (simp_all add: begin_defs Let_def)
  with assms(2) InputQuestionCount show ?thesis by simp
qed

lemma run_in_order:
  "timers_in_order s \<Longrightarrow> run s es = Some s' \<Longrightarrow> timers_in_order s'"
proof (induction es arbitrary: s)
  case Nil
  then show ?case by simp
next
  case (Cons e es)
  then show ?case
    by (auto split: option.splits dest: step_in_order)
qed

lemma held_timer_positive:
  assumes "run initial es = Some s" and "statusCheckInterval s = Some t"
  shows "t \<noteq> 0 \<and> t < next_timer s"
proof -
  have "timers_in_order initial"
    by (simp add: timers_in_order_def initial_def)
  from run_in_order [OF this assms(1)] assms(2) show ?thesis
    by (simp add: timers_in_order_def)
qed

end
